theory Spec2Isabelle
  imports Complex_Main "HOL-Library.AList"
begin

section \<open>Python values, exceptions and dictionaries\<close>

text \<open>
  The values that reach the prediction pipeline are those of a decoded JSON body: None,
  booleans, integers, floats, strings, lists and objects. A Python float is read as the
  real number it denotes (NaN and the infinities are left out). The two thresholds of
  the risk bucketing, the literals \<^verbatim>\<open>0.33\<close> and \<^verbatim>\<open>0.66\<close>, denote the doubles
  nearest to 33/100 and 66/100; both lie above the decimal, with no double strictly
  between, so for a double \<open>p\<close> the test \<^verbatim>\<open>p < 0.33\<close> of the program and the comparison
  of reals \<open>p < 33/100\<close> agree (likewise for 0.66). A dictionary is an association list
  in insertion order, read with \<^const>\<open>map_of\<close> and written with \<^const>\<open>AList.update\<close>
  (an existing key keeps its place, a new key goes to the end).
\<close>

datatype pyval =
    VNone
  | VBool bool
  | VInt int
  | VFloat real
  | VStr string
  | VList "pyval list"
  | VDict "(string \<times> pyval) list"

type_synonym pydict = "(string \<times> pyval) list"

text \<open>
  Exceptions: the classes the sources name in their handlers, and one more for every other
  subclass of \<^verbatim>\<open>Exception\<close>. Each carries the text \<^verbatim>\<open>str(e)\<close>.
\<close>

datatype exn_kind =
  ValueError | TypeError | KeyError | AttributeError | OverflowError | OtherException

datatype exn = Exn (kind: exn_kind) (str_of: string)

text \<open>\<^verbatim>\<open>d[k]\<close>: the value, or KeyError (whose text is the key's repr).\<close>

definition dict_item :: "pydict \<Rightarrow> string \<Rightarrow> exn + pyval" where
  "dict_item d k =
     (case map_of d k of
        None \<Rightarrow> Inl (Exn KeyError ([CHR 0x27] @ k @ [CHR 0x27]))
      | Some v \<Rightarrow> Inr v)"

text \<open>\<^verbatim>\<open>d.get(k, default)\<close>; \<^verbatim>\<open>d.get(k)\<close> is \<open>dict_get d k VNone\<close>.\<close>

definition dict_get :: "pydict \<Rightarrow> string \<Rightarrow> pyval \<Rightarrow> pyval" where
  "dict_get d k dflt = (case map_of d k of None \<Rightarrow> dflt | Some v \<Rightarrow> v)"

text \<open>
  The builtins \<^verbatim>\<open>float()\<close>, \<^verbatim>\<open>int()\<close>, \<^verbatim>\<open>str()\<close> and \<^verbatim>\<open>round()\<close> and the
  multiplication of floats belong to the interpreter and to NumPy, not to the repository:
  they are parameters of the model. \<^verbatim>\<open>float(v)\<close> and \<^verbatim>\<open>int(v)\<close> return a number or
  raise (ValueError for an unparsable string, TypeError for None, a list or an object,
  OverflowError for an integer beyond the range of a double). \<open>float_mul x y\<close> is the
  double \<^verbatim>\<open>x * y\<close> and \<open>py_round x n\<close> the double \<^verbatim>\<open>round(x, n)\<close>: both round
  their exact result to a double, so neither is the operation on reals of the same name.
\<close>

record builtins =
  py_float :: "pyval \<Rightarrow> exn + real"
  py_int :: "pyval \<Rightarrow> exn + int"
  py_str :: "pyval \<Rightarrow> string"
  float_mul :: "real \<Rightarrow> real \<Rightarrow> real"
  py_round :: "real \<Rightarrow> nat \<Rightarrow> real"

text \<open>Sequencing of steps that may raise: the first exception ends the block.\<close>

definition and_then :: "exn + 'a \<Rightarrow> ('a \<Rightarrow> exn + 'b) \<Rightarrow> exn + 'b" where
  "and_then m f = (case m of Inl e \<Rightarrow> Inl e | Inr x \<Rightarrow> f x)"

text \<open>The handler \<^verbatim>\<open>except (ValueError, TypeError)\<close>.\<close>

definition is_value_or_type_error :: "exn \<Rightarrow> bool" where
  "is_value_or_type_error e = (kind e = ValueError \<or> kind e = TypeError)"

text \<open>\<^verbatim>\<open>sep.join(xs)\<close>.\<close>

fun str_join :: "string \<Rightarrow> string list \<Rightarrow> string" where
  "str_join sep [] = []"
| "str_join sep [x] = x"
| "str_join sep (x # y # ys) = x @ sep @ str_join sep (y # ys)"

section \<open>Input validation (utils/validators.py)\<close>

subsection \<open>validate\_prediction\_input\<close>

definition prediction_required_fields :: "string list" where
  "prediction_required_fields =
     [''gender'', ''age'', ''hypertension'', ''heart_disease'', ''ever_married'',
      ''work_type'', ''Residence_type'', ''avg_glucose_level'', ''bmi'', ''smoking_status'']"

definition numeric_fields :: "string list" where
  "numeric_fields = [''age'', ''avg_glucose_level'', ''bmi'']"

text \<open>
  \<^verbatim>\<open>
  for field in required_fields:
      if field not in data or data[field] is None or data[field] == '':
          return False, f'Missing required field: {field}'
  \<close>
  The result is the first field that fails the test, if there is one.
\<close>

fun first_missing_or_empty :: "pydict \<Rightarrow> string list \<Rightarrow> string option" where
  "first_missing_or_empty data [] = None"
| "first_missing_or_empty data (field # rest) =
     (if map_of data field = None \<or> map_of data field = Some VNone
         \<or> map_of data field = Some (VStr [])
      then Some field
      else first_missing_or_empty data rest)"

text \<open>
  \<^verbatim>\<open>
  for field in numeric_fields:
      float(data[field])
  \<close>
\<close>

fun float_each :: "builtins \<Rightarrow> pydict \<Rightarrow> string list \<Rightarrow> exn + unit" where
  "float_each py data [] = Inr ()"
| "float_each py data (field # rest) =
     and_then (dict_item data field) (\<lambda>v.
     and_then (py_float py v) (\<lambda>_.
     float_each py data rest))"

text \<open>
  The function returns the pair \<^verbatim>\<open>(is_valid, error_message)\<close>, or raises what its handler
  does not catch.
\<close>

definition validate_prediction_input :: "builtins \<Rightarrow> pydict \<Rightarrow> exn + bool \<times> string option" where
  "validate_prediction_input py data =
     (case first_missing_or_empty data prediction_required_fields of
        Some field \<Rightarrow> Inr (False, Some (''Missing required field: '' @ field))
      | None \<Rightarrow>
          (case float_each py data numeric_fields of
             Inl e \<Rightarrow>
               if is_value_or_type_error e
               then Inr (False, Some (''Invalid numeric value: '' @ str_of e))
               else Inl e
           | Inr _ \<Rightarrow> Inr (True, None)))"

subsection \<open>validate\_patient\_data\<close>

definition patient_required_fields :: "string list" where
  "patient_required_fields =
     [''gender'', ''age'', ''hypertension'', ''heart_disease'', ''ever_married'',
      ''work_type'', ''Residence_type'', ''avg_glucose_level'', ''smoking_status'', ''stroke'']"

text \<open>
  \<^verbatim>\<open>
  for field in required_fields:
      if field not in patient_data or patient_data[field] is None:
          return False, f'Missing required field: {field}'
  \<close>
\<close>

fun first_missing :: "pydict \<Rightarrow> string list \<Rightarrow> string option" where
  "first_missing patient_data [] = None"
| "first_missing patient_data (field # rest) =
     (if map_of patient_data field = None \<or> map_of patient_data field = Some VNone
      then Some field
      else first_missing patient_data rest)"

definition valid_genders :: "string list" where
  "valid_genders = [''Male'', ''Female'', ''Other'']"

definition binary_fields :: "string list" where
  "binary_fields = [''hypertension'', ''heart_disease'', ''stroke'']"

text \<open>
  \<^verbatim>\<open>
  for field in binary_fields:
      if str(patient_data[field]) not in ['0', '1']:
          return False, f'{field} must be 0 or 1.'
  \<close>
\<close>

fun first_not_binary :: "builtins \<Rightarrow> pydict \<Rightarrow> string list \<Rightarrow> exn + string option" where
  "first_not_binary py patient_data [] = Inr None"
| "first_not_binary py patient_data (field # rest) =
     and_then (dict_item patient_data field) (\<lambda>v.
       if py_str py v \<notin> set [''0'', ''1''] then Inr (Some field)
       else first_not_binary py patient_data rest)"

text \<open>
  The tail of the function, after the two numeric blocks: the gender and the binary
  fields.
\<close>

definition validate_gender_and_binary :: "builtins \<Rightarrow> pydict \<Rightarrow> exn + bool \<times> string option" where
  "validate_gender_and_binary py patient_data =
     and_then (dict_item patient_data ''gender'') (\<lambda>g.
       if g \<notin> set (map VStr valid_genders)
       then Inr (False, Some (''Gender must be one of: '' @ str_join '', '' valid_genders))
       else
         and_then (first_not_binary py patient_data binary_fields) (\<lambda>r.
           case r of
             Some field \<Rightarrow> Inr (False, Some (field @ '' must be 0 or 1.''))
           | None \<Rightarrow> Inr (True, None)))"

text \<open>
  \<^verbatim>\<open>
  try:
      glucose = float(patient_data['avg_glucose_level'])
      if glucose < 0 or glucose > 500:
          return False, 'Glucose level must be between 0 and 500.'
  except (ValueError, TypeError):
      return False, 'Invalid glucose level value.'
  \<close>
  followed by the rest of the function.
\<close>

definition validate_glucose_onwards :: "builtins \<Rightarrow> pydict \<Rightarrow> exn + bool \<times> string option" where
  "validate_glucose_onwards py patient_data =
     (case and_then (dict_item patient_data ''avg_glucose_level'') (py_float py) of
        Inl e \<Rightarrow>
          if is_value_or_type_error e then Inr (False, Some ''Invalid glucose level value.'')
          else Inl e
      | Inr glucose \<Rightarrow>
          if glucose < 0 \<or> glucose > 500
          then Inr (False, Some ''Glucose level must be between 0 and 500.'')
          else validate_gender_and_binary py patient_data)"

definition validate_patient_data :: "builtins \<Rightarrow> pydict \<Rightarrow> exn + bool \<times> string option" where
  "validate_patient_data py patient_data =
     (case first_missing patient_data patient_required_fields of
        Some field \<Rightarrow> Inr (False, Some (''Missing required field: '' @ field))
      | None \<Rightarrow>
          (case and_then (dict_item patient_data ''age'') (py_float py) of
             Inl e \<Rightarrow>
               if is_value_or_type_error e then Inr (False, Some ''Invalid age value.'')
               else Inl e
           | Inr age \<Rightarrow>
               if age < 0 \<or> age > 120
               then Inr (False, Some ''Age must be between 0 and 120.'')
               else validate_glucose_onwards py patient_data))"

section \<open>Prediction service (services/prediction\_service.py)\<close>

subsection \<open>Artifacts, service state and environment\<close>

text \<open>
  The three pickled artifacts are scikit-learn objects. The model keeps of each what
  the service uses: its truth value (tested by \<^verbatim>\<open>if self._model and self._scaler and
  self._label_encoders\<close>) and its methods, as functions that return a value or raise.
  \<^item> \<open>predict_proba\<close> is \<^verbatim>\<open>model.predict_proba(X)[0][1]\<close>, the probability of class 1
    for the one row;
  \<^item> \<open>transform\<close> is \<^verbatim>\<open>scaler.transform(np.array([row]))\<close>;
  \<^item> a label encoder is \<^verbatim>\<open>le.transform([v])[0]\<close>; scikit-learn raises ValueError for
    a label it has not seen.
  The encoders are a dictionary from column name to encoder, true when non-empty.
\<close>

record classifier_obj =
  model_truth :: bool
  predict_proba :: "real list \<Rightarrow> exn + real"

record scaler_obj =
  scaler_truth :: bool
  transform :: "pyval list \<Rightarrow> exn + real list"

type_synonym label_encoder = "pyval \<Rightarrow> exn + int"

text \<open>
  Modelled from the spec: the classifier itself, the pickled artifact
  \<^verbatim>\<open>ml_models/stroke_model.pkl\<close>, which is not among the sources (nor is the
  scikit-learn code that computes its answers). Section 4.3 of the specification gives
  its contract: given a scaled vector, it produces a class-1 probability in [0, 1].
\<close>

definition probability_classifier :: "classifier_obj \<Rightarrow> bool" where
  "probability_classifier m = (\<forall>X p. predict_proba m X = Inr p \<longrightarrow> 0 \<le> p \<and> p \<le> 1)"

text \<open>The class attributes \<^verbatim>\<open>_model\<close>, \<^verbatim>\<open>_scaler\<close>, \<^verbatim>\<open>_label_encoders\<close> of the singleton.\<close>

record service =
  model :: "classifier_obj option"
  scaler :: "scaler_obj option"
  label_encoders :: "(string \<times> label_encoder) list option"

definition initial_service :: service where
  "initial_service = \<lparr>model = None, scaler = None, label_encoders = None\<rparr>"

text \<open>
  What \<^verbatim>\<open>load_model\<close> reads from outside: the application's configuration (reading it
  raises outside an application context), \<^verbatim>\<open>os.path.exists\<close>, and
  \<^verbatim>\<open>pickle.load(open(path, 'rb'))\<close> for each kind of artifact.
\<close>

record env =
  app_config :: "exn + (string \<times> string) list"
  path_exists :: "string \<Rightarrow> bool"
  unpickle_model :: "string \<Rightarrow> exn + classifier_obj"
  unpickle_scaler :: "string \<Rightarrow> exn + scaler_obj"
  unpickle_encoders :: "string \<Rightarrow> exn + (string \<times> label_encoder) list"

datatype level = INFO | WARNING | ERROR

type_synonym log = "(level \<times> string) list"

subsection \<open>load\_model\<close>

definition config_get :: "(string \<times> string) list \<Rightarrow> string \<Rightarrow> string \<Rightarrow> string" where
  "config_get config k dflt = (case map_of config k of None \<Rightarrow> dflt | Some v \<Rightarrow> v)"

definition model_paths :: "(string \<times> string) list \<Rightarrow> string list" where
  "model_paths config =
     [config_get config ''MODEL_PATH'' ''ml_models/stroke_model.pkl'',
      ''stroke_model.pkl'', ''ml_models/stroke_model.pkl'']"

definition scaler_paths :: "(string \<times> string) list \<Rightarrow> string list" where
  "scaler_paths config =
     [config_get config ''SCALER_PATH'' ''ml_models/scaler.pkl'',
      ''scaler.pkl'', ''ml_models/scaler.pkl'']"

definition encoder_paths :: "(string \<times> string) list \<Rightarrow> string list" where
  "encoder_paths config =
     [config_get config ''ENCODERS_PATH'' ''ml_models/label_encoders.pkl'',
      ''label_encoders.pkl'', ''ml_models/label_encoders.pkl'']"

text \<open>
  \<^verbatim>\<open>
  for path in paths:
      if os.path.exists(path):
          self._x = pickle.load(open(path, 'rb'))
          logging.info(f"Loaded ... from {path}")
          break
  \<close>
  The result is the first existing path with the object loaded from it, None when no
  path exists, or the exception of the load.
\<close>

fun load_first :: "(string \<Rightarrow> bool) \<Rightarrow> (string \<Rightarrow> exn + 'a) \<Rightarrow> string list
    \<Rightarrow> exn + (string \<times> 'a) option" where
  "load_first ex ld [] = Inr None"
| "load_first ex ld (path # paths) =
     (if ex path then and_then (ld path) (\<lambda>obj. Inr (Some (path, obj)))
      else load_first ex ld paths)"

definition model_is_true :: "classifier_obj option \<Rightarrow> bool" where
  "model_is_true m = (case m of None \<Rightarrow> False | Some obj \<Rightarrow> model_truth obj)"

definition scaler_is_true :: "scaler_obj option \<Rightarrow> bool" where
  "scaler_is_true sc = (case sc of None \<Rightarrow> False | Some obj \<Rightarrow> scaler_truth obj)"

definition encoders_is_true :: "(string \<times> label_encoder) list option \<Rightarrow> bool" where
  "encoders_is_true encs = (case encs of None \<Rightarrow> False | Some d \<Rightarrow> \<not> List.null d)"

text \<open>
  The body of the \<^verbatim>\<open>try\<close> of \<^verbatim>\<open>load_model\<close>. An attribute assigned before an exception
  stays assigned, so the state and the log are returned beside the result.
\<close>

definition load_model_try :: "env \<Rightarrow> service \<Rightarrow> (exn + bool) \<times> service \<times> log" where
  "load_model_try env s =
     (case app_config env of
        Inl e \<Rightarrow> (Inl e, s, [])
      | Inr config \<Rightarrow>
     (case load_first (path_exists env) (unpickle_model env) (model_paths config) of
        Inl e \<Rightarrow> (Inl e, s, [])
      | Inr r1 \<Rightarrow>
     let s1 = (case r1 of None \<Rightarrow> s | Some (path, obj) \<Rightarrow> s\<lparr>model := Some obj\<rparr>);
         l1 = (case r1 of None \<Rightarrow> []
               | Some (path, obj) \<Rightarrow> [(INFO, ''Loaded model from '' @ path)])
     in
     (case load_first (path_exists env) (unpickle_scaler env) (scaler_paths config) of
        Inl e \<Rightarrow> (Inl e, s1, l1)
      | Inr r2 \<Rightarrow>
     let s2 = (case r2 of None \<Rightarrow> s1 | Some (path, obj) \<Rightarrow> s1\<lparr>scaler := Some obj\<rparr>);
         l2 = (case r2 of None \<Rightarrow> l1
               | Some (path, obj) \<Rightarrow> l1 @ [(INFO, ''Loaded scaler from '' @ path)])
     in
     (case load_first (path_exists env) (unpickle_encoders env) (encoder_paths config) of
        Inl e \<Rightarrow> (Inl e, s2, l2)
      | Inr r3 \<Rightarrow>
     let s3 = (case r3 of None \<Rightarrow> s2
               | Some (path, obj) \<Rightarrow> s2\<lparr>label_encoders := Some obj\<rparr>);
         l3 = (case r3 of None \<Rightarrow> l2
               | Some (path, obj) \<Rightarrow> l2 @ [(INFO, ''Loaded encoders from '' @ path)])
     in
       if model_is_true (model s3) \<and> scaler_is_true (scaler s3)
          \<and> encoders_is_true (label_encoders s3)
       then (Inr True, s3, l3 @ [(INFO, ''ML model loaded successfully'')])
       else (Inr False, s3, l3 @ [(WARNING, ''Some model files not found'')])))))"

text \<open>
  \<^verbatim>\<open>
  if self._model is not None:
      return True
  try: ...
  except Exception as e:
      logging.error(f"Error loading model: {e}")
      return False
  \<close>
  The result type keeps the exception that would leave the function, were there one.
\<close>

definition load_model :: "env \<Rightarrow> service \<Rightarrow> (exn + bool) \<times> service \<times> log" where
  "load_model env s =
     (case model s of
        Some _ \<Rightarrow> (Inr True, s, [])
      | None \<Rightarrow>
          (case load_model_try env s of
             (Inl e, s', l) \<Rightarrow> (Inr False, s', l @ [(ERROR, ''Error loading model: '' @ str_of e)])
           | (Inr b, s', l) \<Rightarrow> (Inr b, s', l)))"

subsection \<open>predict\_risk\<close>

definition categorical_cols :: "string list" where
  "categorical_cols =
     [''gender'', ''ever_married'', ''work_type'', ''Residence_type'', ''smoking_status'']"

definition feature_order :: "string list" where
  "feature_order =
     [''gender'', ''age'', ''hypertension'', ''heart_disease'',
      ''ever_married'', ''work_type'', ''Residence_type'',
      ''avg_glucose_level'', ''bmi'', ''smoking_status'']"

text \<open>What \<^verbatim>\<open>col in None\<close> and \<^verbatim>\<open>None.transform\<close> raise.\<close>

definition none_not_iterable :: exn where
  "none_not_iterable =
     Exn TypeError (''argument of type '' @ [CHR 0x27] @ ''NoneType'' @ [CHR 0x27]
       @ '' is not iterable'')"

definition none_has_no_attribute :: "string \<Rightarrow> exn" where
  "none_has_no_attribute a =
     Exn AttributeError ([CHR 0x27] @ ''NoneType'' @ [CHR 0x27]
       @ '' object has no attribute '' @ [CHR 0x27] @ a @ [CHR 0x27])"

text \<open>
  \<^verbatim>\<open>
  for col in categorical_cols:
      if col in self._label_encoders and col in patient_data:
          try:
              encoded_data[col] = self._label_encoders[col].transform([patient_data[col]])[0]
          except ValueError:
              logging.warning(f"Unseen label for {col}: {patient_data[col]}")
              encoded_data[col] = 0
  \<close>
  The loop returns the encoded dictionary, or the exception that ends it, and what it
  logged.
\<close>

fun encode_cols :: "builtins \<Rightarrow> (string \<times> label_encoder) list option \<Rightarrow> pydict
    \<Rightarrow> string list \<Rightarrow> pydict \<Rightarrow> (exn + pydict) \<times> log" where
  "encode_cols py encs patient_data [] encoded_data = (Inr encoded_data, [])"
| "encode_cols py encs patient_data (col # cols) encoded_data =
     (case encs of
        None \<Rightarrow> (Inl none_not_iterable, [])
      | Some encoders \<Rightarrow>
          (case (map_of encoders col, map_of patient_data col) of
             (Some enc, Some v) \<Rightarrow>
               (case enc v of
                  Inr code \<Rightarrow>
                    encode_cols py encs patient_data cols
                      (AList.update col (VInt code) encoded_data)
                | Inl e \<Rightarrow>
                    if kind e = ValueError
                    then
                      (case encode_cols py encs patient_data cols
                              (AList.update col (VInt 0) encoded_data) of
                         (r, l) \<Rightarrow>
                           (r, (WARNING, ''Unseen label for '' @ col @ '': '' @ py_str py v) # l))
                    else (Inl e, []))
           | _ \<Rightarrow> encode_cols py encs patient_data cols encoded_data))"

text \<open>
  A column whose encoding either returns a code or raises ValueError, the exception the
  loop handles (a column without encoder or without value is skipped).
\<close>

definition raises_only_value_error :: "(string \<times> label_encoder) list \<Rightarrow> pydict \<Rightarrow> string \<Rightarrow> bool" where
  "raises_only_value_error encoders patient_data col =
     (case (map_of encoders col, map_of patient_data col) of
        (Some enc, Some v) \<Rightarrow> (case enc v of Inl e \<Rightarrow> kind e = ValueError | Inr code \<Rightarrow> True)
      | _ \<Rightarrow> True)"

text \<open>\<^verbatim>\<open>[encoded_data[col] for col in feature_order]\<close>\<close>

fun feature_row :: "pydict \<Rightarrow> string list \<Rightarrow> exn + pyval list" where
  "feature_row encoded_data [] = Inr []"
| "feature_row encoded_data (col # cols) =
     and_then (dict_item encoded_data col) (\<lambda>v.
     and_then (feature_row encoded_data cols) (\<lambda>vs.
     Inr (v # vs)))"

definition scaler_transform :: "scaler_obj option \<Rightarrow> pyval list \<Rightarrow> exn + real list" where
  "scaler_transform sc X_input =
     (case sc of
        None \<Rightarrow> Inl (none_has_no_attribute ''transform'')
      | Some obj \<Rightarrow> transform obj X_input)"

definition model_predict_proba :: "classifier_obj option \<Rightarrow> real list \<Rightarrow> exn + real" where
  "model_predict_proba m X_scaled =
     (case m of
        None \<Rightarrow> Inl (none_has_no_attribute ''predict_proba'')
      | Some obj \<Rightarrow> predict_proba obj X_scaled)"

text \<open>
  The risk bucketing at the end of \<^verbatim>\<open>predict_risk\<close>:
  \<^verbatim>\<open>
  if risk_probability < 0.33:
      risk_category = "Low Risk";    risk_color = "green"
  elif risk_probability < 0.66:
      risk_category = "Medium Risk"; risk_color = "orange"
  else:
      risk_category = "High Risk";   risk_color = "red"
  \<close>
\<close>

definition categorize_risk :: "real \<Rightarrow> string \<times> string" where
  "categorize_risk risk_probability =
     (if risk_probability < 0.33 then (''Low Risk'', ''green'')
      else if risk_probability < 0.66 then (''Medium Risk'', ''orange'')
      else (''High Risk'', ''red''))"

definition failure :: "string \<Rightarrow> pydict" where
  "failure msg = [(''success'', VBool False), (''error'', VStr msg)]"

text \<open>
  The rest of the \<^verbatim>\<open>try\<close> of \<^verbatim>\<open>predict_risk\<close>, from the encoded dictionary on:
  \<^verbatim>\<open>
  X_input = np.array([[encoded_data[col] for col in feature_order]])
  X_scaled = self._scaler.transform(X_input)
  risk_probability = self._model.predict_proba(X_scaled)[0][1]
  (bucketing)
  return {'success': True, 'risk_probability': round(risk_probability * 100, 2),
          'risk_category': risk_category, 'risk_color': risk_color}
  \<close>
\<close>

definition success :: "builtins \<Rightarrow> real \<Rightarrow> pydict" where
  "success py risk_probability =
     (case categorize_risk risk_probability of
        (risk_category, risk_color) \<Rightarrow>
          [(''success'', VBool True),
           (''risk_probability'', VFloat (py_round py (float_mul py risk_probability 100) 2)),
           (''risk_category'', VStr risk_category),
           (''risk_color'', VStr risk_color)])"

definition classify_encoded :: "builtins \<Rightarrow> service \<Rightarrow> pydict \<Rightarrow> exn + pydict" where
  "classify_encoded py s encoded_data =
     and_then (feature_row encoded_data feature_order) (\<lambda>X_input.
     and_then (scaler_transform (scaler s) X_input) (\<lambda>X_scaled.
     and_then (model_predict_proba (model s) X_scaled) (\<lambda>risk_probability.
     Inr (success py risk_probability))))"

text \<open>
  The body of the \<^verbatim>\<open>try\<close>: \<^verbatim>\<open>encoded_data = patient_data.copy()\<close>, the encoding loop,
  then the rest.
\<close>

definition predict_try :: "builtins \<Rightarrow> service \<Rightarrow> pydict \<Rightarrow> (exn + pydict) \<times> log" where
  "predict_try py s patient_data =
     (case encode_cols py (label_encoders s) patient_data categorical_cols patient_data of
        (Inl e, l) \<Rightarrow> (Inl e, l)
      | (Inr encoded_data, l) \<Rightarrow> (classify_encoded py s encoded_data, l))"

text \<open>
  \<^verbatim>\<open>
  if not self.load_model():
      return {'success': False, 'error': 'Model not loaded'}
  if self._model is None:
      return {'success': False, 'error': 'Model not available'}
  try: ...
  except Exception as e:
      logging.error(f"Prediction error: {e}")
      return {'success': False, 'error': str(e)}
  \<close>
  The result is the returned dictionary, or the exception that leaves the function, with
  the state of the service and the log after the call.
\<close>

definition predict_risk :: "builtins \<Rightarrow> env \<Rightarrow> service \<Rightarrow> pydict
    \<Rightarrow> (exn + pydict) \<times> service \<times> log" where
  "predict_risk py env s patient_data =
     (case load_model env s of
        (Inl e, s', l) \<Rightarrow> (Inl e, s', l)
      | (Inr loaded, s', l) \<Rightarrow>
          if \<not> loaded then (Inr (failure ''Model not loaded''), s', l)
          else
            (case model s' of
               None \<Rightarrow> (Inr (failure ''Model not available''), s', l)
             | Some _ \<Rightarrow>
                 (case predict_try py s' patient_data of
                    (Inl e, l') \<Rightarrow>
                      (Inr (failure (str_of e)), s',
                       l @ l' @ [(ERROR, ''Prediction error: '' @ str_of e)])
                  | (Inr result, l') \<Rightarrow> (Inr result, s', l @ l'))))"

text \<open>
  The service is one object for the life of the process (\<^verbatim>\<open>prediction_service =
  PredictionService()\<close>): a sequence of calls threads its state. Each call has its own
  environment, since files may come and go between calls.
\<close>

fun predict_risk_calls :: "builtins \<Rightarrow> service \<Rightarrow> (env \<times> pydict) list
    \<Rightarrow> (exn + pydict) list \<times> service" where
  "predict_risk_calls py s [] = ([], s)"
| "predict_risk_calls py s ((env, patient_data) # calls) =
     (case predict_risk py env s patient_data of
        (r, s', l) \<Rightarrow>
          (case predict_risk_calls py s' calls of
             (rs, s'') \<Rightarrow> (r # rs, s'')))"

text \<open>
  No classifier file exists at any of the paths \<^verbatim>\<open>load_model\<close> tries (when reading the
  configuration raises, no path is tried at all).
\<close>

definition model_file_absent :: "env \<Rightarrow> bool" where
  "model_file_absent env =
     (case app_config env of
        Inl e \<Rightarrow> True
      | Inr config \<Rightarrow> list_all (\<lambda>path. \<not> path_exists env path) (model_paths config))"

section \<open>The /predict route (routes/prediction.py)\<close>

text \<open>Truth value of a Python value, as \<^verbatim>\<open>if v\<close> tests it.\<close>

fun py_truth :: "pyval \<Rightarrow> bool" where
  "py_truth VNone = False"
| "py_truth (VBool b) = b"
| "py_truth (VInt i) = (i \<noteq> 0)"
| "py_truth (VFloat x) = (x \<noteq> 0)"
| "py_truth (VStr s) = (\<not> List.null s)"
| "py_truth (VList xs) = (\<not> List.null xs)"
| "py_truth (VDict d) = (\<not> List.null d)"

text \<open>
  \<^verbatim>\<open>
  patient_data = {
      'gender': data.get('gender'),
      'age': float(data.get('age')),
      'hypertension': int(data.get('hypertension', 0)),
      'heart_disease': int(data.get('heart_disease', 0)),
      'ever_married': data.get('ever_married'),
      'work_type': data.get('work_type'),
      'Residence_type': data.get('Residence_type'),
      'avg_glucose_level': float(data.get('avg_glucose_level')),
      'bmi': float(data.get('bmi')),
      'smoking_status': data.get('smoking_status')
  }
  \<close>
\<close>

definition prepare_patient_data :: "builtins \<Rightarrow> pydict \<Rightarrow> exn + pydict" where
  "prepare_patient_data py data =
     and_then (py_float py (dict_get data ''age'' VNone)) (\<lambda>age.
     and_then (py_int py (dict_get data ''hypertension'' (VInt 0))) (\<lambda>hypertension.
     and_then (py_int py (dict_get data ''heart_disease'' (VInt 0))) (\<lambda>heart_disease.
     and_then (py_float py (dict_get data ''avg_glucose_level'' VNone)) (\<lambda>avg_glucose_level.
     and_then (py_float py (dict_get data ''bmi'' VNone)) (\<lambda>bmi.
       Inr [(''gender'', dict_get data ''gender'' VNone),
            (''age'', VFloat age),
            (''hypertension'', VInt hypertension),
            (''heart_disease'', VInt heart_disease),
            (''ever_married'', dict_get data ''ever_married'' VNone),
            (''work_type'', dict_get data ''work_type'' VNone),
            (''Residence_type'', dict_get data ''Residence_type'' VNone),
            (''avg_glucose_level'', VFloat avg_glucose_level),
            (''bmi'', VFloat bmi),
            (''smoking_status'', dict_get data ''smoking_status'' VNone)])))))"

text \<open>
  \<^verbatim>\<open>
  if result.get('success'):
      logging.info(f"Prediction: {result['risk_category']} ({result['risk_probability']}%)")
  \<close>
\<close>

definition log_prediction :: "builtins \<Rightarrow> pydict \<Rightarrow> exn + log" where
  "log_prediction py result =
     (if py_truth (dict_get result ''success'' VNone)
      then
        and_then (dict_item result ''risk_category'') (\<lambda>c.
        and_then (dict_item result ''risk_probability'') (\<lambda>p.
        Inr [(INFO, ''Prediction: '' @ py_str py c @ '' ('' @ py_str py p @ ''%)'')]))
      else Inr [])"

text \<open>
  The result of the route: the JSON body and the HTTP status of the response, the state
  of the service and the log after the request, and the arguments of the calls of
  \<^verbatim>\<open>predict_risk\<close> that the request made.
\<close>

type_synonym route_result = "(pydict \<times> nat) \<times> service \<times> log \<times> pydict list"

text \<open>The body of the \<^verbatim>\<open>try\<close> of the route, for a request whose JSON body is an object.\<close>

definition predict_route_try :: "builtins \<Rightarrow> env \<Rightarrow> service \<Rightarrow> pydict
    \<Rightarrow> (exn + pydict \<times> nat) \<times> service \<times> log \<times> pydict list" where
  "predict_route_try py env s data =
     (if List.null data then (Inr (failure ''No data provided'', 400), s, [], [])
      else
        (case validate_prediction_input py data of
           Inl e \<Rightarrow> (Inl e, s, [], [])
         | Inr (is_valid, error_msg) \<Rightarrow>
             if \<not> is_valid
             then (Inr ([(''success'', VBool False),
                         (''error'', case error_msg of None \<Rightarrow> VNone | Some m \<Rightarrow> VStr m)], 400),
                   s, [], [])
             else
               (case prepare_patient_data py data of
                  Inl e \<Rightarrow> (Inl e, s, [], [])
                | Inr patient_data \<Rightarrow>
                    (case predict_risk py env s patient_data of
                       (Inl e, s', l) \<Rightarrow> (Inl e, s', l, [patient_data])
                     | (Inr result, s', l) \<Rightarrow>
                         (case log_prediction py result of
                            Inl e \<Rightarrow> (Inl e, s', l, [patient_data])
                          | Inr l' \<Rightarrow> (Inr (result, 200), s', l @ l', [patient_data]))))))"

text \<open>
  \<^verbatim>\<open>
  except ValueError as e:
      logging.error(f"Prediction validation error: {e}")
      return jsonify({'success': False, 'error': f'Invalid input: {str(e)}'}), 400
  except Exception as e:
      logging.error(f"Prediction error: {e}")
      return jsonify({'success': False, 'error': str(e)}), 500
  \<close>
\<close>

definition predict :: "builtins \<Rightarrow> env \<Rightarrow> service \<Rightarrow> pydict \<Rightarrow> route_result" where
  "predict py env s data =
     (case predict_route_try py env s data of
        (Inr r, s', l, calls) \<Rightarrow> (r, s', l, calls)
      | (Inl e, s', l, calls) \<Rightarrow>
          if kind e = ValueError
          then ((failure (''Invalid input: '' @ str_of e), 400), s',
                l @ [(ERROR, ''Prediction validation error: '' @ str_of e)], calls)
          else ((failure (str_of e), 500), s',
                l @ [(ERROR, ''Prediction error: '' @ str_of e)], calls))"

section \<open>Column order at training time (scripts/train\_model.py)\<close>








section \<open>A concrete interpreter, artifacts and request\<close>

text \<open>
  For evaluation at concrete inputs: an interpretation of the builtins on the values of
  the examples (the strings that parse as numbers are those of a small table), encoders
  over vocabularies of strings, a scaler that leaves numbers as they are, a classifier
  that answers a fixed probability, and the patient of the specification's example.
\<close>

definition quoted :: "string \<Rightarrow> string" where
  "quoted s = [CHR 0x27] @ s @ [CHR 0x27]"

definition example_numerals :: "(string \<times> int) list" where
  "example_numerals = [(''0'', 0), (''1'', 1), (''45'', 45), (''120'', 120)]"

definition example_float :: "pyval \<Rightarrow> exn + real" where
  "example_float v =
     (case v of
        VFloat x \<Rightarrow> Inr x
      | VInt i \<Rightarrow>
          if \<bar>i\<bar> < 2 ^ 1024 - 2 ^ 970 then Inr (of_int i)
          else Inl (Exn OverflowError ''int too large to convert to float'')
      | VBool b \<Rightarrow> Inr (if b then 1 else 0)
      | VStr s \<Rightarrow>
          (case map_of example_numerals s of
             Some i \<Rightarrow> Inr (of_int i)
           | None \<Rightarrow> Inl (Exn ValueError (''could not convert string to float: '' @ quoted s)))
      | _ \<Rightarrow> Inl (Exn TypeError ''float() argument must be a string or a real number''))"

definition example_int :: "pyval \<Rightarrow> exn + int" where
  "example_int v =
     (case v of
        VInt i \<Rightarrow> Inr i
      | VFloat x \<Rightarrow> Inr (if 0 \<le> x then \<lfloor>x\<rfloor> else \<lceil>x\<rceil>)
      | VBool b \<Rightarrow> Inr (if b then 1 else 0)
      | VStr s \<Rightarrow>
          (case map_of example_numerals s of
             Some i \<Rightarrow> Inr i
           | None \<Rightarrow>
               Inl (Exn ValueError (''invalid literal for int() with base 10: '' @ quoted s)))
      | _ \<Rightarrow> Inl (Exn TypeError ''int() argument must be a string or a real number''))"

text \<open>
  Rounding to \<open>n\<close> decimals on reals, a tie going to the even neighbour. With the exact
  product it stands for the float operations in the examples, whose numbers (0.5 * 100,
  and 50 rounded to two decimals) the float operations compute exactly as well.
\<close>

definition round_half_even :: "real \<Rightarrow> int" where
  "round_half_even y =
     (let f = \<lfloor>y\<rfloor> in
      if y - of_int f < 1 / 2 then f
      else if 1 / 2 < y - of_int f then f + 1
      else if even f then f else f + 1)"

definition exact_round :: "real \<Rightarrow> nat \<Rightarrow> real" where
  "exact_round x ndigits = of_int (round_half_even (x * 10 ^ ndigits)) / 10 ^ ndigits"

definition example_builtins :: builtins where
  "example_builtins =
     \<lparr>py_float = example_float, py_int = example_int,
      py_str = (\<lambda>v. case v of VStr s \<Rightarrow> s | _ \<Rightarrow> ''?''),
      float_mul = (\<lambda>x y. x * y), py_round = exact_round\<rparr>"

definition example_encoder :: "string list \<Rightarrow> label_encoder" where
  "example_encoder classes v =
     (case v of
        VStr s \<Rightarrow>
          if s \<in> set classes then Inr (int (length (takeWhile (\<lambda>c. c \<noteq> s) classes)))
          else Inl (Exn ValueError (''y contains previously unseen labels: '' @ quoted s))
      | _ \<Rightarrow> Inl (Exn ValueError ''y contains previously unseen labels''))"

definition example_encoders :: "(string \<times> label_encoder) list" where
  "example_encoders =
     [(''gender'', example_encoder [''Female'', ''Male'', ''Other'']),
      (''ever_married'', example_encoder [''No'', ''Yes'']),
      (''work_type'', example_encoder [''Govt_job'', ''Private'', ''Self-employed'']),
      (''Residence_type'', example_encoder [''Rural'', ''Urban'']),
      (''smoking_status'',
         example_encoder [''Unknown'', ''formerly smoked'', ''never smoked'', ''smokes''])]"

fun number_row :: "pyval list \<Rightarrow> exn + real list" where
  "number_row [] = Inr []"
| "number_row (VInt i # vs) = and_then (number_row vs) (\<lambda>xs. Inr (of_int i # xs))"
| "number_row (VFloat x # vs) = and_then (number_row vs) (\<lambda>xs. Inr (x # xs))"
| "number_row (v # vs) = Inl (Exn ValueError ''could not convert to float'')"

definition example_scaler :: scaler_obj where
  "example_scaler = \<lparr>scaler_truth = True, transform = number_row\<rparr>"

definition example_model :: "real \<Rightarrow> classifier_obj" where
  "example_model p = \<lparr>model_truth = True, predict_proba = (\<lambda>X. Inr p)\<rparr>"

definition example_service :: "real \<Rightarrow> service" where
  "example_service p =
     \<lparr>model = Some (example_model p), scaler = Some example_scaler,
      label_encoders = Some example_encoders\<rparr>"

text \<open>An environment with every artifact in place, and one with none.\<close>

definition example_env :: "real \<Rightarrow> env" where
  "example_env p =
     \<lparr>app_config = Inr [], path_exists = (\<lambda>path. True),
      unpickle_model = (\<lambda>path. Inr (example_model p)),
      unpickle_scaler = (\<lambda>path. Inr example_scaler),
      unpickle_encoders = (\<lambda>path. Inr example_encoders)\<rparr>"

definition empty_env :: env where
  "empty_env =
     \<lparr>app_config = Inr [], path_exists = (\<lambda>path. False),
      unpickle_model = (\<lambda>path. Inl (Exn OtherException ''No such file or directory'')),
      unpickle_scaler = (\<lambda>path. Inl (Exn OtherException ''No such file or directory'')),
      unpickle_encoders = (\<lambda>path. Inl (Exn OtherException ''No such file or directory''))\<rparr>"

definition example_patient :: pydict where
  "example_patient =
     [(''gender'', VStr ''Male''), (''age'', VFloat 45), (''hypertension'', VInt 0),
      (''heart_disease'', VInt 0), (''ever_married'', VStr ''Yes''),
      (''work_type'', VStr ''Private''), (''Residence_type'', VStr ''Urban''),
      (''avg_glucose_level'', VFloat 120.5), (''bmi'', VFloat 25.6),
      (''smoking_status'', VStr ''never smoked'')]"

section \<open>Properties\<close>

subsection \<open>Risk bucketing\<close>

text \<open>
  C1. The risk bucketer returns Low Risk/green for a probability below 0.33, Medium
  Risk/orange from 0.33 (included) to 0.66 (excluded), and High Risk/red from 0.66 on; in
  particular 0.32 is Low, 0.33 Medium, 0.659 Medium and 0.66 High.
\<close>

theorem categorize_risk_thresholds:
  "(p < 0.33 \<longrightarrow> categorize_risk p = (''Low Risk'', ''green'')) \<and>
   (0.33 \<le> p \<and> p < 0.66 \<longrightarrow> categorize_risk p = (''Medium Risk'', ''orange'')) \<and>
   (0.66 \<le> p \<longrightarrow> categorize_risk p = (''High Risk'', ''red'')) \<and>
   categorize_risk 0.32 = (''Low Risk'', ''green'') \<and>
   categorize_risk 0.33 = (''Medium Risk'', ''orange'') \<and>
   categorize_risk 0.659 = (''Medium Risk'', ''orange'') \<and>
   categorize_risk 0.66 = (''High Risk'', ''red'')"
  by (simp add: categorize_risk_def)

theorem categorize_risk_thresholds_witness:
  "(0.1::real) < 0.33 \<and> categorize_risk 0.1 = (''Low Risk'', ''green'') \<and>
   (0.33::real) \<le> 0.5 \<and> (0.5::real) < 0.66 \<and> categorize_risk 0.5 = (''Medium Risk'', ''orange'') \<and>
   (0.66::real) \<le> 0.9 \<and> categorize_risk 0.9 = (''High Risk'', ''red'')"
  using categorize_risk_thresholds [of "0.1"] categorize_risk_thresholds [of "0.5"]
    categorize_risk_thresholds [of "0.9"]
  by simp

subsection \<open>Loading and the shape of a call\<close>

lemma load_first_absent:
  "list_all (\<lambda>path. \<not> ex path) paths \<Longrightarrow> load_first ex ld paths = Inr None"
  by (induction paths) simp_all

lemma load_model_cached: "model s = Some m \<Longrightarrow> load_model env s = (Inr True, s, [])"
  by (simp add: load_model_def)

lemma load_model_try_keeps_absent_model:
  assumes "model s = None" and "model_file_absent env"
  shows "\<exists>r s' l. load_model_try env s = (r, s', l) \<and> r \<noteq> Inr True \<and> model s' = None"
proof (cases "app_config env")
  case (Inl e)
  then show ?thesis using assms by (simp add: load_model_try_def)
next
  case (Inr config)
  then have "load_first (path_exists env) (unpickle_model env) (model_paths config) = Inr None"
    using assms(2) by (simp add: model_file_absent_def load_first_absent)
  then show ?thesis using Inr assms(1)
    by (auto simp: load_model_try_def Let_def model_is_true_def split: sum.splits option.splits prod.splits)
qed

lemma load_model_absent:
  assumes "model s = None" and "model_file_absent env"
  shows "\<exists>s' l. load_model env s = (Inr False, s', l) \<and> model s' = None"
proof -
  obtain r s' l where r: "load_model_try env s = (r, s', l)" "r \<noteq> Inr True" "model s' = None"
    using load_model_try_keeps_absent_model [OF assms] by blast
  then show ?thesis using assms(1)
    by (cases r) (auto simp: load_model_def)
qed

lemma load_model_returns: "\<exists>b s' l. load_model env s = (Inr b, s', l)"
  by (auto simp: load_model_def split: option.splits sum.splits prod.splits)

lemma predict_risk_absent:
  assumes "model s = None" and "model_file_absent env"
  shows "\<exists>s' l. predict_risk py env s patient_data = (Inr (failure ''Model not loaded''), s', l)
           \<and> model s' = None"
proof -
  obtain s' l where "load_model env s = (Inr False, s', l)" "model s' = None"
    using load_model_absent [OF assms] by blast
  then show ?thesis by (simp add: predict_risk_def)
qed

lemma predict_risk_calls_absent:
  assumes "model s = None" and "list_all (\<lambda>(env, patient_data). model_file_absent env) calls"
  shows "\<exists>s'. predict_risk_calls py s calls =
           (replicate (length calls) (Inr (failure ''Model not loaded'')), s') \<and> model s' = None"
  using assms
proof (induction calls arbitrary: s)
  case Nil
  then show ?case by simp
next
  case (Cons c calls)
  obtain env patient_data where c: "c = (env, patient_data)" by (cases c)
  with Cons.prems have a: "model_file_absent env"
    and rest: "list_all (\<lambda>(env, patient_data). model_file_absent env) calls" by simp_all
  obtain s1 l where s1: "predict_risk py env s patient_data = (Inr (failure ''Model not loaded''), s1, l)"
    "model s1 = None"
    using predict_risk_absent [OF Cons.prems(1) a] by blast
  obtain s2 where "predict_risk_calls py s1 calls =
      (replicate (length calls) (Inr (failure ''Model not loaded'')), s2)" "model s2 = None"
    using Cons.IH [OF s1(2) rest] by blast
  then show ?case using c s1 by simp
qed


lemma load_model_True_has_model:
  "load_model env s = (Inr True, s', l) \<Longrightarrow> \<exists>m. model s' = Some m"
  by (auto simp: load_model_def load_model_try_def Let_def model_is_true_def
      split: option.splits sum.splits prod.splits if_splits)

lemma predict_risk_cases:
  obtains (not_loaded) s' l where "load_model env s = (Inr False, s', l)"
      "predict_risk py env s patient_data = (Inr (failure ''Model not loaded''), s', l)"
  | (raised) s' l0 m e l where "load_model env s = (Inr True, s', l0)" "model s' = Some m"
      "predict_try py s' patient_data = (Inl e, l)"
      "predict_risk py env s patient_data =
         (Inr (failure (str_of e)), s', l0 @ l @ [(ERROR, ''Prediction error: '' @ str_of e)])"
  | (returned) s' l0 m result l where "load_model env s = (Inr True, s', l0)" "model s' = Some m"
      "predict_try py s' patient_data = (Inr result, l)"
      "predict_risk py env s patient_data = (Inr result, s', l0 @ l)"
proof -
  obtain b s' l0 where ld: "load_model env s = (Inr b, s', l0)"
    using load_model_returns by blast
  show thesis
  proof (cases b)
    case False
    with ld show thesis by (intro not_loaded [of s' l0]) (simp_all add: predict_risk_def)
  next
    case True
    with ld have "load_model env s = (Inr True, s', l0)" by simp
    then obtain m where m: "model s' = Some m" using load_model_True_has_model by blast
    obtain r l where pt: "predict_try py s' patient_data = (r, l)" by (cases "predict_try py s' patient_data")
    show thesis
    proof (cases r)
      case (Inl e)
      with ld True m pt show thesis by (intro raised [of s' l0 m e l]) (simp_all add: predict_risk_def)
    next
      case (Inr result)
      with ld True m pt show thesis by (intro returned [of s' l0 m result l]) (simp_all add: predict_risk_def)
    qed
  qed
qed

lemmas example_defs = example_service_def example_model_def example_scaler_def
  example_encoders_def example_encoder_def example_patient_def example_builtins_def
  example_env_def empty_env_def example_float_def example_int_def quoted_def
  example_numerals_def initial_service_def

lemmas predict_try_defs = predict_try_def classify_encoded_def success_def categorize_risk_def
  scaler_transform_def model_predict_proba_def categorical_cols_def feature_order_def
  and_then_def dict_item_def exact_round_def round_half_even_def AList.update_def

subsection \<open>Claims about the service\<close>

text \<open>
  C6. When no classifier file exists at any of the paths \<^verbatim>\<open>load_model\<close> tries (in
  particular when all three artifact files are absent), then from start-up on, whatever
  the sequence of calls, every \<^verbatim>\<open>predict_risk\<close> returns the dictionary
  \<^verbatim>\<open>{'success': False, 'error': 'Model not loaded'}\<close> and \<^verbatim>\<open>load_model\<close> returns
  False: the condition is reported as a value, no exception leaves the call.
\<close>

theorem missing_model_file_reported:
  assumes "list_all (\<lambda>(env, patient_data). model_file_absent env) calls"
    and "model_file_absent env"
  shows "\<exists>s. predict_risk_calls py initial_service calls
             = (replicate (length calls) (Inr (failure ''Model not loaded'')), s) \<and>
           fst (load_model env s) = Inr False \<and>
           fst (predict_risk py env s patient_data) = Inr (failure ''Model not loaded'')"
proof -
  have "model initial_service = None" by (simp add: initial_service_def)
  then obtain s where s: "predict_risk_calls py initial_service calls
      = (replicate (length calls) (Inr (failure ''Model not loaded'')), s)" "model s = None"
    using predict_risk_calls_absent [OF _ assms(1)] by blast
  from load_model_absent [OF s(2) assms(2)] predict_risk_absent [OF s(2) assms(2)] s(1)
  show ?thesis by (metis fst_conv)
qed

theorem missing_model_file_reported_witness:
  "list_all (\<lambda>(env, patient_data). model_file_absent env)
     [(empty_env, example_patient), (empty_env, example_patient)] \<and>
   model_file_absent empty_env \<and>
   (\<exists>s. predict_risk_calls example_builtins initial_service
           [(empty_env, example_patient), (empty_env, example_patient)]
         = ([Inr (failure ''Model not loaded''), Inr (failure ''Model not loaded'')], s) \<and>
        fst (load_model empty_env s) = Inr False \<and>
        fst (predict_risk example_builtins empty_env s example_patient)
          = Inr (failure ''Model not loaded''))"
proof -
  have a: "model_file_absent empty_env"
    by (simp add: model_file_absent_def empty_env_def model_paths_def)
  then have b: "list_all (\<lambda>(env, patient_data). model_file_absent env)
     [(empty_env, example_patient), (empty_env, example_patient)]" by simp
  from missing_model_file_reported [OF b a, of example_builtins example_patient] a b
  show ?thesis by (simp add: numeral_2_eq_2)
qed

text \<open>
  The hypothesis is on the classifier file. With the classifier present and the scaler
  file absent, the first call answers \<^verbatim>\<open>'Model not loaded'\<close> as well, but it leaves
  the classifier cached, so from the second call on \<^verbatim>\<open>load_model\<close> returns True and the
  failure is that of the missing scaler:
\<close>

lemma partial_load_passes_later:
  "fst (predict_risk_calls example_builtins initial_service
     [(example_env 0.5\<lparr>path_exists := (\<lambda>path. path \<notin> set (scaler_paths []))\<rparr>, example_patient),
      (example_env 0.5\<lparr>path_exists := (\<lambda>path. path \<notin> set (scaler_paths []))\<rparr>, example_patient)])
   = [Inr (failure ''Model not loaded''),
      Inr (failure (str_of (none_has_no_attribute ''transform'')))]"
  by (simp add: predict_risk_def load_model_def load_model_try_def example_defs
        model_paths_def scaler_paths_def encoder_paths_def config_get_def
        model_is_true_def scaler_is_true_def encoders_is_true_def predict_try_def
        classify_encoded_def scaler_transform_def model_predict_proba_def categorical_cols_def
        feature_order_def and_then_def dict_item_def AList.update_def failure_def)

text \<open>
  C7. \<^verbatim>\<open>predict_risk\<close> is total at its boundary: for every input dictionary, state and
  environment it returns a dictionary, never an exception; an exception raised inside its
  \<^verbatim>\<open>try\<close> becomes the failure dictionary with the exception's text, and one raised
  while loading becomes the failure \<^verbatim>\<open>'Model not loaded'\<close>.
\<close>

theorem predict_risk_total:
  "(\<exists>r s' l. predict_risk py env s patient_data = (Inr r, s', l)) \<and>
   (\<forall>s' l0 e l. load_model env s = (Inr True, s', l0) \<and> predict_try py s' patient_data = (Inl e, l)
      \<longrightarrow> predict_risk py env s patient_data =
            (Inr (failure (str_of e)), s', l0 @ l @ [(ERROR, ''Prediction error: '' @ str_of e)])) \<and>
   (\<forall>e s' l. model s = None \<and> load_model_try env s = (Inl e, s', l)
      \<longrightarrow> predict_risk py env s patient_data =
            (Inr (failure ''Model not loaded''), s', l @ [(ERROR, ''Error loading model: '' @ str_of e)]))"
proof (intro conjI allI impI)
  show "\<exists>r s' l. predict_risk py env s patient_data = (Inr r, s', l)"
    by (cases rule: predict_risk_cases [of env s py patient_data]) auto
next
  fix s' l0 e l
  assume "load_model env s = (Inr True, s', l0) \<and> predict_try py s' patient_data = (Inl e, l)"
  then show "predict_risk py env s patient_data =
      (Inr (failure (str_of e)), s', l0 @ l @ [(ERROR, ''Prediction error: '' @ str_of e)])"
    by (cases rule: predict_risk_cases [of env s py patient_data]) auto
next
  fix e s' l
  assume "model s = None \<and> load_model_try env s = (Inl e, s', l)"
  then show "predict_risk py env s patient_data =
      (Inr (failure ''Model not loaded''), s', l @ [(ERROR, ''Error loading model: '' @ str_of e)])"
    by (simp add: predict_risk_def load_model_def)
qed

theorem predict_risk_total_witness:
  "load_model empty_env (example_service 0.5) = (Inr True, example_service 0.5, []) \<and>
   predict_try example_builtins (example_service 0.5) [(''gender'', VStr ''Male'')]
     = (Inl (Exn KeyError (quoted ''age'')), []) \<and>
   predict_risk example_builtins empty_env (example_service 0.5) [(''gender'', VStr ''Male'')]
     = (Inr (failure (quoted ''age'')), example_service 0.5,
        [(ERROR, ''Prediction error: '' @ quoted ''age'')]) \<and>
   model initial_service = None \<and>
   load_model_try (empty_env\<lparr>app_config := Inl (Exn OtherException ''Working outside of application context.'')\<rparr>)
       initial_service
     = (Inl (Exn OtherException ''Working outside of application context.''), initial_service, []) \<and>
   predict_risk example_builtins
       (empty_env\<lparr>app_config := Inl (Exn OtherException ''Working outside of application context.'')\<rparr>)
       initial_service example_patient
     = (Inr (failure ''Model not loaded''), initial_service,
        [(ERROR, ''Error loading model: Working outside of application context.'')])"
proof -
  let ?s = "example_service 0.5" and ?d = "[(''gender'', VStr ''Male'')]"
  let ?e = "empty_env\<lparr>app_config := Inl (Exn OtherException ''Working outside of application context.'')\<rparr>"
  have a: "load_model empty_env ?s = (Inr True, ?s, [])"
    by (simp add: load_model_def example_service_def)
  have b: "predict_try example_builtins ?s ?d = (Inl (Exn KeyError (quoted ''age'')), [])"
    by (simp add: example_defs predict_try_defs)
  have c: "model initial_service = None" by (simp add: initial_service_def)
  have d: "load_model_try ?e initial_service
      = (Inl (Exn OtherException ''Working outside of application context.''), initial_service, [])"
    by (simp add: load_model_try_def)
  from predict_risk_total [of example_builtins empty_env ?s ?d] a b
  have 1: "predict_risk example_builtins empty_env ?s ?d
     = (Inr (failure (quoted ''age'')), ?s, [(ERROR, ''Prediction error: '' @ quoted ''age'')])"
    by simp
  from predict_risk_total [of example_builtins ?e initial_service example_patient] c d
  have 2: "predict_risk example_builtins ?e initial_service example_patient
     = (Inr (failure ''Model not loaded''), initial_service,
        [(ERROR, ''Error loading model: Working outside of application context.'')])"
    by simp
  from a b c d 1 2 show ?thesis by simp
qed

text \<open>
  C8. Once the artifacts are loaded (\<^verbatim>\<open>load_model\<close> returns True, from its cache or by
  loading them in this very call), a second call of \<^verbatim>\<open>predict_risk\<close> on the same
  dictionary returns the same result as the first and leaves the service in the same
  state, whatever happens to the files in between. The artifacts' methods are functions
  of their arguments in this model.
\<close>

theorem predict_risk_repeatable:
  assumes "fst (load_model env1 s) = Inr True"
    and "predict_risk py env1 s patient_data = (r1, s1, l1)"
    and "predict_risk py env2 s1 patient_data = (r2, s2, l2)"
  shows "r2 = r1 \<and> s2 = s1"
proof -
  obtain s' l0 where ld: "load_model env1 s = (Inr True, s', l0)"
    using assms(1) by (cases "load_model env1 s") auto
  then obtain m where m: "model s' = Some m" using load_model_True_has_model by blast
  obtain r l where pt: "predict_try py s' patient_data = (r, l)"
    by (cases "predict_try py s' patient_data")
  have first: "s1 = s'"
    and r1: "r1 = (case r of Inl e \<Rightarrow> Inr (failure (str_of e)) | Inr result \<Rightarrow> Inr result)"
    using assms(2) ld m pt by (auto simp: predict_risk_def split: sum.splits)
  have "load_model env2 s' = (Inr True, s', [])" using m by (rule load_model_cached)
  then have "s2 = s'"
    and "r2 = (case r of Inl e \<Rightarrow> Inr (failure (str_of e)) | Inr result \<Rightarrow> Inr result)"
    using assms(3) first m pt by (auto simp: predict_risk_def split: sum.splits)
  with first r1 show ?thesis by simp
qed

theorem predict_risk_repeatable_witness:
  "fst (load_model (example_env 0.5) initial_service) = Inr True \<and>
   fst (predict_risk example_builtins (example_env 0.5) initial_service example_patient)
     = Inr (success example_builtins 0.5) \<and>
   fst (snd (predict_risk example_builtins (example_env 0.5) initial_service example_patient))
     = example_service 0.5 \<and>
   fst (predict_risk example_builtins empty_env
          (fst (snd (predict_risk example_builtins (example_env 0.5) initial_service
             example_patient))) example_patient)
     = Inr (success example_builtins 0.5)"
proof -
  let ?A = "predict_risk example_builtins (example_env 0.5) initial_service example_patient"
  let ?B = "predict_risk example_builtins empty_env (fst (snd ?A)) example_patient"
  have m: "fst (load_model (example_env 0.5) initial_service) = Inr True"
    by (simp add: load_model_def load_model_try_def example_defs
        model_paths_def scaler_paths_def encoder_paths_def config_get_def
        model_is_true_def scaler_is_true_def encoders_is_true_def and_then_def)
  have a: "?A = (fst ?A, fst (snd ?A), snd (snd ?A))" by simp
  have b: "?B = (fst ?B, fst (snd ?B), snd (snd ?B))" by simp
  have "?A = (Inr (success example_builtins 0.5), example_service 0.5,
        [(INFO, ''Loaded model from ml_models/stroke_model.pkl''),
         (INFO, ''Loaded scaler from ml_models/scaler.pkl''),
         (INFO, ''Loaded encoders from ml_models/label_encoders.pkl''),
         (INFO, ''ML model loaded successfully'')])"
    by (simp add: predict_risk_def load_model_def load_model_try_def example_defs
        model_paths_def scaler_paths_def encoder_paths_def config_get_def
        model_is_true_def scaler_is_true_def encoders_is_true_def predict_try_def
        classify_encoded_def scaler_transform_def model_predict_proba_def categorical_cols_def
        feature_order_def and_then_def dict_item_def AList.update_def)
  then have r: "fst ?A = Inr (success example_builtins 0.5)" and st: "fst (snd ?A) = example_service 0.5"
    by simp_all
  note t = predict_risk_repeatable [OF m a b]
  from t have t1: "fst ?B = fst ?A" by (rule conjunct1)
  from t1 r have t4: "fst ?B = Inr (success example_builtins 0.5)" by (rule trans)
  show ?thesis by (intro conjI m r st t4)
qed

subsection \<open>Validation\<close>

lemma first_missing_or_empty_None:
  "list_all (\<lambda>field. map_of data field \<notin> {None, Some VNone, Some (VStr [])}) fs
   \<Longrightarrow> first_missing_or_empty data fs = None"
  by (induction fs) simp_all

text \<open>
  C10. \<^verbatim>\<open>validate_prediction_input\<close> checks no range: when the ten required fields are
  present, not None and not the empty string, and \<^verbatim>\<open>float()\<close> returns for age, glucose
  level and BMI, the result is \<^verbatim>\<open>(True, None)\<close>, whatever the numbers are. On the same
  input \<^verbatim>\<open>validate_patient_data\<close> returns False with a message as soon as the age is
  outside [0, 120] or the glucose level outside [0, 500].
\<close>

theorem validate_prediction_input_no_range_check:
  assumes "list_all (\<lambda>field. map_of data field \<notin> {None, Some VNone, Some (VStr [])})
             prediction_required_fields"
    and "map_of data ''age'' = Some va" and "py_float py va = Inr age"
    and "map_of data ''avg_glucose_level'' = Some vg" and "py_float py vg = Inr glucose"
    and "map_of data ''bmi'' = Some vb" and "py_float py vb = Inr bmi"
  shows "validate_prediction_input py data = Inr (True, None) \<and>
         (age < 0 \<or> 120 < age \<or> glucose < 0 \<or> 500 < glucose
            \<longrightarrow> (\<exists>msg. validate_patient_data py data = Inr (False, Some msg)))"
proof
  have "float_each py data numeric_fields = Inr ()"
    using assms(2-7) by (simp add: numeric_fields_def and_then_def dict_item_def)
  then show "validate_prediction_input py data = Inr (True, None)"
    using first_missing_or_empty_None [OF assms(1)] by (simp add: validate_prediction_input_def)
next
  have a: "and_then (dict_item data ''age'') (py_float py) = Inr age"
    using assms(2,3) by (simp add: and_then_def dict_item_def)
  have g: "and_then (dict_item data ''avg_glucose_level'') (py_float py) = Inr glucose"
    using assms(4,5) by (simp add: and_then_def dict_item_def)
  show "age < 0 \<or> 120 < age \<or> glucose < 0 \<or> 500 < glucose
            \<longrightarrow> (\<exists>msg. validate_patient_data py data = Inr (False, Some msg))"
    using a g by (auto simp: validate_patient_data_def validate_glucose_onwards_def split: option.splits)
qed

theorem validate_prediction_input_no_range_check_witness:
  "validate_prediction_input example_builtins
     [(''gender'', VStr ''Male''), (''age'', VFloat (- 5)), (''hypertension'', VInt 0),
      (''heart_disease'', VInt 0), (''ever_married'', VStr ''Yes''),
      (''work_type'', VStr ''Private''), (''Residence_type'', VStr ''Urban''),
      (''avg_glucose_level'', VInt 600), (''bmi'', VFloat 25.6),
      (''smoking_status'', VStr ''never smoked''), (''stroke'', VInt 0)] = Inr (True, None) \<and>
   (- 5 :: real) < 0 \<and> (500 :: real) < 600 \<and>
   validate_patient_data example_builtins
     [(''gender'', VStr ''Male''), (''age'', VFloat (- 5)), (''hypertension'', VInt 0),
      (''heart_disease'', VInt 0), (''ever_married'', VStr ''Yes''),
      (''work_type'', VStr ''Private''), (''Residence_type'', VStr ''Urban''),
      (''avg_glucose_level'', VInt 600), (''bmi'', VFloat 25.6),
      (''smoking_status'', VStr ''never smoked''), (''stroke'', VInt 0)]
     = Inr (False, Some ''Age must be between 0 and 120.'')"
proof -
  let ?d = "[(''gender'', VStr ''Male''), (''age'', VFloat (- 5)), (''hypertension'', VInt 0),
      (''heart_disease'', VInt 0), (''ever_married'', VStr ''Yes''),
      (''work_type'', VStr ''Private''), (''Residence_type'', VStr ''Urban''),
      (''avg_glucose_level'', VInt 600), (''bmi'', VFloat 25.6),
      (''smoking_status'', VStr ''never smoked''), (''stroke'', VInt 0)]"
  have p: "list_all (\<lambda>field. map_of ?d field \<notin> {None, Some VNone, Some (VStr [])})
             prediction_required_fields"
    by (simp add: prediction_required_fields_def)
  have a: "map_of ?d ''age'' = Some (VFloat (- 5))" "py_float example_builtins (VFloat (- 5)) = Inr (- 5)"
    by (simp_all add: example_builtins_def example_float_def)
  have g: "map_of ?d ''avg_glucose_level'' = Some (VInt 600)" "py_float example_builtins (VInt 600) = Inr 600"
    by (simp_all add: example_builtins_def example_float_def)
  have b: "map_of ?d ''bmi'' = Some (VFloat 25.6)" "py_float example_builtins (VFloat 25.6) = Inr 25.6"
    by (simp_all add: example_builtins_def example_float_def)
  have v: "validate_patient_data example_builtins ?d = Inr (False, Some ''Age must be between 0 and 120.'')"
    by (simp add: validate_patient_data_def patient_required_fields_def and_then_def dict_item_def
        example_builtins_def example_float_def)
  from validate_prediction_input_no_range_check [OF p a g b] v show ?thesis by simp
qed

lemma first_missing_or_empty_Some:
  "field \<in> set fs \<Longrightarrow> map_of data field \<in> {None, Some VNone, Some (VStr [])}
   \<Longrightarrow> \<exists>g. first_missing_or_empty data fs = Some g"
  by (induction fs) auto

lemma validate_prediction_input_missing:
  assumes "field \<in> set prediction_required_fields"
    and "map_of data field \<in> {None, Some VNone, Some (VStr [])}"
  shows "\<exists>msg. validate_prediction_input py data = Inr (False, Some msg)"
  using first_missing_or_empty_Some [OF assms]
  by (auto simp: validate_prediction_input_def)

lemma validate_prediction_input_not_numeric:
  assumes "float_each py data numeric_fields = Inl e" and "is_value_or_type_error e"
  shows "\<exists>msg. validate_prediction_input py data = Inr (False, Some msg)"
  using assms by (auto simp: validate_prediction_input_def split: option.splits)

lemma invalid_input_never_reaches_model:
  assumes "validate_prediction_input py data \<noteq> Inr (True, None)"
  shows "\<exists>msg code l. predict py env s data = ((failure msg, code), s, l, [])"
proof (cases "validate_prediction_input py data")
  case (Inl e)
  then show ?thesis
    by (auto simp: predict_def predict_route_try_def)
next
  case (Inr r)
  then obtain msg where "r = (False, Some msg)" using assms
    by (auto simp: validate_prediction_input_def split: option.splits sum.splits if_splits)
  with Inr show ?thesis
    by (auto simp: predict_def predict_route_try_def failure_def)
qed

text \<open>
  C3. The lemmas above are the part of the claim that holds: a required field that
  is absent, None or empty, or a numeric field on which \<^verbatim>\<open>float()\<close> raises ValueError or
  TypeError first, makes \<^verbatim>\<open>validate_prediction_input\<close> return False with a message,
  and whenever the validator does not return \<^verbatim>\<open>(True, None)\<close> the route answers a
  failure without a call of \<^verbatim>\<open>predict_risk\<close>. The claim as a whole fails where
  \<^verbatim>\<open>float()\<close> raises OverflowError, which the handler
  \<^verbatim>\<open>except (ValueError, TypeError)\<close> does not catch: with an age of \<open>10 ^ 400\<close> (an
  integer of a JSON body) and a BMI of \<^verbatim>\<open>'abc'\<close>, the validator raises instead of
  returning \<^verbatim>\<open>(False, message)\<close>; the route then answers status 500, still without a
  call of \<^verbatim>\<open>predict_risk\<close>.
\<close>

theorem oversized_number_escapes_validation:
  "validate_prediction_input example_builtins
     [(''gender'', VStr ''Male''), (''age'', VInt (10 ^ 400)), (''hypertension'', VInt 0),
      (''heart_disease'', VInt 0), (''ever_married'', VStr ''Yes''),
      (''work_type'', VStr ''Private''), (''Residence_type'', VStr ''Urban''),
      (''avg_glucose_level'', VFloat 120.5), (''bmi'', VStr ''abc''),
      (''smoking_status'', VStr ''never smoked'')]
     = Inl (Exn OverflowError ''int too large to convert to float'') \<and>
   py_float example_builtins (VStr ''abc'')
     = Inl (Exn ValueError (''could not convert string to float: '' @ quoted ''abc'')) \<and>
   predict example_builtins (example_env 0.5) (example_service 0.5)
     [(''gender'', VStr ''Male''), (''age'', VInt (10 ^ 400)), (''hypertension'', VInt 0),
      (''heart_disease'', VInt 0), (''ever_married'', VStr ''Yes''),
      (''work_type'', VStr ''Private''), (''Residence_type'', VStr ''Urban''),
      (''avg_glucose_level'', VFloat 120.5), (''bmi'', VStr ''abc''),
      (''smoking_status'', VStr ''never smoked'')]
     = ((failure ''int too large to convert to float'', 500), example_service 0.5,
        [(ERROR, ''Prediction error: int too large to convert to float'')], [])"
proof -
  let ?d = "[(''gender'', VStr ''Male''), (''age'', VInt (10 ^ 400)), (''hypertension'', VInt 0),
      (''heart_disease'', VInt 0), (''ever_married'', VStr ''Yes''),
      (''work_type'', VStr ''Private''), (''Residence_type'', VStr ''Urban''),
      (''avg_glucose_level'', VFloat 120.5), (''bmi'', VStr ''abc''),
      (''smoking_status'', VStr ''never smoked'')]"
  have v: "validate_prediction_input example_builtins ?d
      = Inl (Exn OverflowError ''int too large to convert to float'')"
    by (simp add: validate_prediction_input_def prediction_required_fields_def
        numeric_fields_def and_then_def dict_item_def is_value_or_type_error_def
        example_builtins_def example_float_def)
  have f: "py_float example_builtins (VStr ''abc'')
     = Inl (Exn ValueError (''could not convert string to float: '' @ quoted ''abc''))"
    by (simp add: example_builtins_def example_float_def example_numerals_def)
  have p: "predict example_builtins (example_env 0.5) (example_service 0.5) ?d
     = ((failure ''int too large to convert to float'', 500), example_service 0.5,
        [(ERROR, ''Prediction error: int too large to convert to float'')], [])"
    using v by (simp add: predict_def predict_route_try_def)
  from v f p show ?thesis by (intro conjI)
qed

subsection \<open>Encoding of categorical fields\<close>

lemma encode_cols_unseen:
  assumes "list_all (raises_only_value_error encoders patient_data) cols"
  shows "\<exists>encoded_data l.
           encode_cols py (Some encoders) patient_data cols encoded0 = (Inr encoded_data, l) \<and>
           (\<forall>c. c \<notin> set cols \<longrightarrow> map_of encoded_data c = map_of encoded0 c) \<and>
           (\<forall>c enc v e. c \<in> set cols \<and> map_of encoders c = Some enc \<and> map_of patient_data c = Some v
               \<and> enc v = Inl e
              \<longrightarrow> map_of encoded_data c = Some (VInt 0) \<and>
                  (WARNING, ''Unseen label for '' @ c @ '': '' @ py_str py v) \<in> set l)"
  using assms
proof (induction cols arbitrary: encoded0)
  case Nil
  then show ?case by simp
next
  case (Cons col cols)
  from Cons.prems have here: "raises_only_value_error encoders patient_data col"
    and rest: "list_all (raises_only_value_error encoders patient_data) cols" by simp_all
  note IH = Cons.IH [OF rest]
  show ?case
  proof (cases "map_of encoders col")
    case None
    from IH [of encoded0] obtain encoded_data l where
      r: "encode_cols py (Some encoders) patient_data cols encoded0 = (Inr encoded_data, l)"
      and keep: "\<forall>c. c \<notin> set cols \<longrightarrow> map_of encoded_data c = map_of encoded0 c"
      and zero: "\<forall>c enc v e. c \<in> set cols \<and> map_of encoders c = Some enc \<and> map_of patient_data c = Some v
               \<and> enc v = Inl e
              \<longrightarrow> map_of encoded_data c = Some (VInt 0) \<and>
                  (WARNING, ''Unseen label for '' @ c @ '': '' @ py_str py v) \<in> set l"
      by blast
    have "encode_cols py (Some encoders) patient_data (col # cols) encoded0 = (Inr encoded_data, l)"
      using None r by simp
    moreover have "\<forall>c. c \<notin> set (col # cols) \<longrightarrow> map_of encoded_data c = map_of encoded0 c"
      using keep by simp
    moreover have "\<forall>c enc' v' e. c \<in> set (col # cols) \<and> map_of encoders c = Some enc'
               \<and> map_of patient_data c = Some v' \<and> enc' v' = Inl e
              \<longrightarrow> map_of encoded_data c = Some (VInt 0) \<and>
                  (WARNING, ''Unseen label for '' @ c @ '': '' @ py_str py v') \<in> set l"
    proof (intro allI impI)
      fix c enc' v' e'
      assume a: "c \<in> set (col # cols) \<and> map_of encoders c = Some enc'
               \<and> map_of patient_data c = Some v' \<and> enc' v' = Inl e'"
      with None have "c \<noteq> col" by auto
      with a have "c \<in> set cols" by simp
      with a zero show "map_of encoded_data c = Some (VInt 0) \<and>
                  (WARNING, ''Unseen label for '' @ c @ '': '' @ py_str py v') \<in> set l"
        by blast
    qed
    ultimately show ?thesis by blast
  next
    case enc: (Some enc)
    show ?thesis
    proof (cases "map_of patient_data col")
      case None
      from IH [of encoded0] obtain encoded_data l where
        r: "encode_cols py (Some encoders) patient_data cols encoded0 = (Inr encoded_data, l)"
        and keep: "\<forall>c. c \<notin> set cols \<longrightarrow> map_of encoded_data c = map_of encoded0 c"
        and zero: "\<forall>c enc v e. c \<in> set cols \<and> map_of encoders c = Some enc \<and> map_of patient_data c = Some v
                 \<and> enc v = Inl e
                \<longrightarrow> map_of encoded_data c = Some (VInt 0) \<and>
                    (WARNING, ''Unseen label for '' @ c @ '': '' @ py_str py v) \<in> set l"
        by blast
      have "encode_cols py (Some encoders) patient_data (col # cols) encoded0 = (Inr encoded_data, l)"
        using enc None r by simp
      moreover have "\<forall>c. c \<notin> set (col # cols) \<longrightarrow> map_of encoded_data c = map_of encoded0 c"
        using keep by simp
      moreover have "\<forall>c enc' v' e. c \<in> set (col # cols) \<and> map_of encoders c = Some enc'
                 \<and> map_of patient_data c = Some v' \<and> enc' v' = Inl e
                \<longrightarrow> map_of encoded_data c = Some (VInt 0) \<and>
                    (WARNING, ''Unseen label for '' @ c @ '': '' @ py_str py v') \<in> set l"
      proof (intro allI impI)
        fix c enc' v' e'
        assume a: "c \<in> set (col # cols) \<and> map_of encoders c = Some enc'
                 \<and> map_of patient_data c = Some v' \<and> enc' v' = Inl e'"
        with enc None have "c \<noteq> col" by auto
        with a have "c \<in> set cols" by simp
        with a zero show "map_of encoded_data c = Some (VInt 0) \<and>
                    (WARNING, ''Unseen label for '' @ c @ '': '' @ py_str py v') \<in> set l"
          by blast
      qed
      ultimately show ?thesis by blast
    next
      case v: (Some v)
      show ?thesis
      proof (cases "enc v")
        case (Inr code)
        from IH [of "AList.update col (VInt code) encoded0"] obtain encoded_data l where
          r: "encode_cols py (Some encoders) patient_data cols (AList.update col (VInt code) encoded0)
                = (Inr encoded_data, l)"
          and keep: "\<forall>c. c \<notin> set cols \<longrightarrow>
                map_of encoded_data c = map_of (AList.update col (VInt code) encoded0) c"
          and zero: "\<forall>c enc v e. c \<in> set cols \<and> map_of encoders c = Some enc \<and> map_of patient_data c = Some v
               \<and> enc v = Inl e
              \<longrightarrow> map_of encoded_data c = Some (VInt 0) \<and>
                  (WARNING, ''Unseen label for '' @ c @ '': '' @ py_str py v) \<in> set l"
          by blast
        have "encode_cols py (Some encoders) patient_data (col # cols) encoded0 = (Inr encoded_data, l)"
          using enc v Inr r by simp
        moreover have "\<forall>c. c \<notin> set (col # cols) \<longrightarrow> map_of encoded_data c = map_of encoded0 c"
          using keep by (simp add: update_conv')
        moreover have "\<forall>c enc' v' e. c \<in> set (col # cols) \<and> map_of encoders c = Some enc'
               \<and> map_of patient_data c = Some v' \<and> enc' v' = Inl e
              \<longrightarrow> map_of encoded_data c = Some (VInt 0) \<and>
                  (WARNING, ''Unseen label for '' @ c @ '': '' @ py_str py v') \<in> set l"
          using zero enc v Inr by auto
        ultimately show ?thesis by blast
      next
        case (Inl e)
        from IH [of "AList.update col (VInt 0) encoded0"] obtain encoded_data l where
          r: "encode_cols py (Some encoders) patient_data cols (AList.update col (VInt 0) encoded0)
                = (Inr encoded_data, l)"
          and keep: "\<forall>c. c \<notin> set cols \<longrightarrow>
                map_of encoded_data c = map_of (AList.update col (VInt 0) encoded0) c"
          and zero: "\<forall>c enc v e. c \<in> set cols \<and> map_of encoders c = Some enc \<and> map_of patient_data c = Some v
               \<and> enc v = Inl e
              \<longrightarrow> map_of encoded_data c = Some (VInt 0) \<and>
                  (WARNING, ''Unseen label for '' @ c @ '': '' @ py_str py v) \<in> set l"
          by blast
        have k: "kind e = ValueError"
          using here enc v Inl by (simp add: raises_only_value_error_def)
        let ?w = "(WARNING, ''Unseen label for '' @ col @ '': '' @ py_str py v)"
        have "encode_cols py (Some encoders) patient_data (col # cols) encoded0
                = (Inr encoded_data, ?w # l)"
          using enc v Inl k r by simp
        moreover have "\<forall>c. c \<notin> set (col # cols) \<longrightarrow> map_of encoded_data c = map_of encoded0 c"
          using keep by (simp add: update_conv')
        moreover have "\<forall>c enc' v' e. c \<in> set (col # cols) \<and> map_of encoders c = Some enc'
               \<and> map_of patient_data c = Some v' \<and> enc' v' = Inl e
              \<longrightarrow> map_of encoded_data c = Some (VInt 0) \<and>
                  (WARNING, ''Unseen label for '' @ c @ '': '' @ py_str py v') \<in> set (?w # l)"
        proof (intro allI impI)
          fix c enc' v' e'
          assume a: "c \<in> set (col # cols) \<and> map_of encoders c = Some enc'
               \<and> map_of patient_data c = Some v' \<and> enc' v' = Inl e'"
          show "map_of encoded_data c = Some (VInt 0) \<and>
                  (WARNING, ''Unseen label for '' @ c @ '': '' @ py_str py v') \<in> set (?w # l)"
          proof (cases "c \<in> set cols")
            case True
            with a zero show ?thesis by auto
          next
            case False
            with a have c: "c = col" by simp
            with a enc v have "v' = v" by simp
            moreover have "map_of encoded_data c = Some (VInt 0)"
              using keep False c by (simp add: update_conv')
            ultimately show ?thesis using c by simp
          qed
        qed
        ultimately show ?thesis by blast
      qed
    qed
  qed
qed

text \<open>
  C4. A categorical value outside the vocabulary of its encoder, which the encoder
  reports by ValueError, does not end the encoding: the loop returns normally with the
  code 0 assigned to that column and a warning logged for it, and the prediction goes on
  to classify the encoded dictionary (provided no other column's encoder raises anything
  but ValueError).
\<close>

theorem unseen_label_defaults_to_zero:
  assumes "label_encoders s = Some encoders"
    and "list_all (raises_only_value_error encoders patient_data) categorical_cols"
    and "col \<in> set categorical_cols"
    and "map_of encoders col = Some enc" and "map_of patient_data col = Some v"
    and "enc v = Inl e" and "kind e = ValueError"
  shows "\<exists>encoded_data l.
           encode_cols py (Some encoders) patient_data categorical_cols patient_data
             = (Inr encoded_data, l) \<and>
           map_of encoded_data col = Some (VInt 0) \<and>
           (WARNING, ''Unseen label for '' @ col @ '': '' @ py_str py v) \<in> set l \<and>
           predict_try py s patient_data = (classify_encoded py s encoded_data, l)"
proof -
  from encode_cols_unseen [OF assms(2), of py patient_data] obtain encoded_data l where
    r: "encode_cols py (Some encoders) patient_data categorical_cols patient_data
          = (Inr encoded_data, l)"
    and zero: "\<forall>c enc v e. c \<in> set categorical_cols \<and> map_of encoders c = Some enc
          \<and> map_of patient_data c = Some v \<and> enc v = Inl e
          \<longrightarrow> map_of encoded_data c = Some (VInt 0) \<and>
              (WARNING, ''Unseen label for '' @ c @ '': '' @ py_str py v) \<in> set l"
    by blast
  from zero assms(3-6) have "map_of encoded_data col = Some (VInt 0)"
    and "(WARNING, ''Unseen label for '' @ col @ '': '' @ py_str py v) \<in> set l" by blast+
  moreover have "predict_try py s patient_data = (classify_encoded py s encoded_data, l)"
    using r assms(1) by (simp add: predict_try_def)
  ultimately show ?thesis using r by blast
qed


theorem unseen_label_defaults_to_zero_witness:
  "label_encoders (example_service 0.5) = Some example_encoders \<and>
   list_all (raises_only_value_error example_encoders
       (AList.update ''work_type'' (VStr ''Astronaut'') example_patient)) categorical_cols \<and>
   ''work_type'' \<in> set categorical_cols \<and>
   map_of example_encoders ''work_type''
     = Some (example_encoder [''Govt_job'', ''Private'', ''Self-employed'']) \<and>
   map_of (AList.update ''work_type'' (VStr ''Astronaut'') example_patient) ''work_type''
     = Some (VStr ''Astronaut'') \<and>
   kind (Exn ValueError (''y contains previously unseen labels: '' @ quoted ''Astronaut''))
     = ValueError \<and>
   (\<exists>encoded_data l.
      encode_cols example_builtins (Some example_encoders)
          (AList.update ''work_type'' (VStr ''Astronaut'') example_patient) categorical_cols
          (AList.update ''work_type'' (VStr ''Astronaut'') example_patient)
        = (Inr encoded_data, l) \<and>
      map_of encoded_data ''work_type'' = Some (VInt 0) \<and>
      (WARNING, ''Unseen label for work_type: Astronaut'') \<in> set l \<and>
      predict_try example_builtins (example_service 0.5)
          (AList.update ''work_type'' (VStr ''Astronaut'') example_patient)
        = (classify_encoded example_builtins (example_service 0.5) encoded_data, l)) \<and>
   predict_try example_builtins (example_service 0.5)
       (AList.update ''work_type'' (VStr ''Astronaut'') example_patient)
     = (Inr (success example_builtins 0.5), [(WARNING, ''Unseen label for work_type: Astronaut'')])"
proof -
  let ?d = "AList.update ''work_type'' (VStr ''Astronaut'') example_patient"
  let ?enc = "example_encoder [''Govt_job'', ''Private'', ''Self-employed'']"
  let ?e = "Exn ValueError (''y contains previously unseen labels: '' @ quoted ''Astronaut'')"
  have a: "label_encoders (example_service 0.5) = Some example_encoders"
    by (simp add: example_service_def)
  have b: "list_all (raises_only_value_error example_encoders ?d) categorical_cols"
    by (simp add: raises_only_value_error_def categorical_cols_def example_defs AList.update_def)
  have c: "''work_type'' \<in> set categorical_cols" by (simp add: categorical_cols_def)
  have d: "map_of example_encoders ''work_type'' = Some ?enc"
    by (simp add: example_encoders_def)
  have e: "map_of ?d ''work_type'' = Some (VStr ''Astronaut'')"
    by (simp add: example_patient_def AList.update_def)
  have f: "?enc (VStr ''Astronaut'') = Inl ?e" by (simp add: example_encoder_def)
  have g: "kind ?e = ValueError" by simp
  have h: "py_str example_builtins (VStr ''Astronaut'') = ''Astronaut''"
    by (simp add: example_builtins_def)
  have p: "predict_try example_builtins (example_service 0.5) ?d
     = (Inr (success example_builtins 0.5), [(WARNING, ''Unseen label for work_type: Astronaut'')])"
    by (simp add: example_defs predict_try_def classify_encoded_def scaler_transform_def
        model_predict_proba_def categorical_cols_def feature_order_def and_then_def
        dict_item_def AList.update_def)
  from unseen_label_defaults_to_zero [OF a b c d e f g, of example_builtins] h
  have t: "\<exists>encoded_data l.
      encode_cols example_builtins (Some example_encoders) ?d categorical_cols ?d
        = (Inr encoded_data, l) \<and>
      map_of encoded_data ''work_type'' = Some (VInt 0) \<and>
      (WARNING, ''Unseen label for work_type: Astronaut'') \<in> set l \<and>
      predict_try example_builtins (example_service 0.5) ?d
        = (classify_encoded example_builtins (example_service 0.5) encoded_data, l)"
    by simp
  show ?thesis by (intro conjI a b c d e g t p)
qed

subsection \<open>The feature row and the classifier call\<close>

lemma feature_row_sound:
  "feature_row encoded_data cols = Inr row
   \<Longrightarrow> list_all2 (\<lambda>c v. map_of encoded_data c = Some v) cols row"
proof (induction cols arbitrary: row)
  case Nil
  then show ?case by simp
next
  case (Cons c cols)
  from Cons.prems obtain v where v: "map_of encoded_data c = Some v"
    by (cases "map_of encoded_data c") (simp_all add: dict_item_def and_then_def)
  with Cons.prems obtain vs where vs: "feature_row encoded_data cols = Inr vs"
    by (cases "feature_row encoded_data cols") (simp_all add: dict_item_def and_then_def)
  with v Cons.prems have "row = v # vs" by (simp add: dict_item_def and_then_def)
  with v Cons.IH [OF vs] show ?case by simp
qed

lemma feature_row_complete:
  "list_all2 (\<lambda>c v. map_of encoded_data c = Some v) cols row
   \<Longrightarrow> feature_row encoded_data cols = Inr row"
  by (induction cols row rule: list_all2_induct) (simp_all add: dict_item_def and_then_def)

lemma feature_row_iff:
  "feature_row encoded_data cols = Inr row
   \<longleftrightarrow> list_all2 (\<lambda>c v. map_of encoded_data c = Some v) cols row"
  using feature_row_sound feature_row_complete by blast

lemma classify_encoded_row:
  assumes "list_all2 (\<lambda>c v. map_of encoded_data c = Some v) feature_order row"
    and "scaler s = Some sc" and "model s = Some m"
  shows "classify_encoded py s encoded_data =
           and_then (transform sc row) (\<lambda>X_scaled.
           and_then (predict_proba m X_scaled) (\<lambda>p. Inr (success py p)))"
proof -
  have "feature_row encoded_data feature_order = Inr row"
    using assms(1) by (simp add: feature_row_iff)
  then show ?thesis using assms(2,3)
    by (simp add: classify_encoded_def and_then_def scaler_transform_def model_predict_proba_def)
qed

lemma classify_encoded_Inr:
  assumes "classify_encoded py s encoded_data = Inr result"
  shows "\<exists>row sc X m p. list_all2 (\<lambda>c v. map_of encoded_data c = Some v) feature_order row \<and>
           scaler s = Some sc \<and> transform sc row = Inr X \<and>
           model s = Some m \<and> predict_proba m X = Inr p \<and> result = success py p"
proof -
  from assms obtain row where row: "feature_row encoded_data feature_order = Inr row"
    by (cases "feature_row encoded_data feature_order") (auto simp: classify_encoded_def and_then_def)
  with assms obtain X where X: "scaler_transform (scaler s) row = Inr X"
    by (cases "scaler_transform (scaler s) row") (auto simp: classify_encoded_def and_then_def)
  with assms row obtain p where p: "model_predict_proba (model s) X = Inr p"
    by (cases "model_predict_proba (model s) X") (auto simp: classify_encoded_def and_then_def)
  from X obtain sc where sc: "scaler s = Some sc" "transform sc row = Inr X"
    by (cases "scaler s") (auto simp: scaler_transform_def)
  from p obtain m where m: "model s = Some m" "predict_proba m X = Inr p"
    by (cases "model s") (auto simp: model_predict_proba_def)
  have "result = success py p"
    using assms row X p by (simp add: classify_encoded_def and_then_def)
  with row sc m show ?thesis by (auto simp: feature_row_iff)
qed

lemma predict_try_Inr:
  assumes "predict_try py s patient_data = (Inr result, l)"
  shows "\<exists>encoded_data row sc X m p.
           encode_cols py (label_encoders s) patient_data categorical_cols patient_data
             = (Inr encoded_data, l) \<and>
           list_all2 (\<lambda>c v. map_of encoded_data c = Some v) feature_order row \<and>
           scaler s = Some sc \<and> transform sc row = Inr X \<and>
           model s = Some m \<and> predict_proba m X = Inr p \<and> result = success py p"
proof -
  obtain r l' where e: "encode_cols py (label_encoders s) patient_data categorical_cols patient_data = (r, l')"
    by (cases "encode_cols py (label_encoders s) patient_data categorical_cols patient_data")
  with assms obtain encoded_data where r: "r = Inr encoded_data"
    by (cases r) (auto simp: predict_try_def)
  with assms e have "l' = l" "classify_encoded py s encoded_data = Inr result"
    by (simp_all add: predict_try_def)
  with e r classify_encoded_Inr [of py s encoded_data result] show ?thesis by blast
qed

lemma predict_try_chain:
  assumes "encode_cols py (label_encoders s) patient_data categorical_cols patient_data
             = (Inr encoded_data, l)"
    and "list_all2 (\<lambda>c v. map_of encoded_data c = Some v) feature_order row"
    and "scaler s = Some sc" and "transform sc row = Inr X"
    and "model s = Some m" and "predict_proba m X = Inr p"
  shows "predict_try py s patient_data = (Inr (success py p), l)"
  using assms(1,4,6) classify_encoded_row [OF assms(2,3,5), of py]
  by (simp add: predict_try_def and_then_def)

lemma load_first_Some:
  "load_first ex ld paths = Inr (Some (path, obj)) \<Longrightarrow> ld path = Inr obj"
  by (induction paths) (auto simp: and_then_def split: if_splits sum.splits)

lemma load_model_try_model:
  assumes "load_model_try env s = (r, s', l)"
  shows "model s' = model s \<or> (\<exists>path m. unpickle_model env path = Inr m \<and> model s' = Some m)"
proof (cases "app_config env")
  case (Inl e)
  with assms show ?thesis by (simp add: load_model_try_def)
next
  case (Inr config)
  show ?thesis
  proof (cases "load_first (path_exists env) (unpickle_model env) (model_paths config)")
    case (Inl e)
    with Inr assms show ?thesis by (simp add: load_model_try_def)
  next
    case r1: (Inr r1)
    define s1 where "s1 = (case r1 of None \<Rightarrow> s | Some (path, obj) \<Rightarrow> s\<lparr>model := Some obj\<rparr>)"
    have m1: "model s1 = model s \<or> (\<exists>path m. unpickle_model env path = Inr m \<and> model s1 = Some m)"
    proof (cases r1)
      case None
      then show ?thesis by (simp add: s1_def)
    next
      case (Some a)
      obtain path obj where "a = (path, obj)" by (cases a)
      with Some r1 have "unpickle_model env path = Inr obj" "model s1 = Some obj"
        by (simp_all add: s1_def load_first_Some)
      then show ?thesis by blast
    qed
    have "model s' = model s1"
    proof (cases "load_first (path_exists env) (unpickle_scaler env) (scaler_paths config)")
      case (Inl e)
      with Inr r1 assms show ?thesis by (simp add: load_model_try_def s1_def Let_def)
    next
      case r2: (Inr r2)
      show ?thesis
      proof (cases "load_first (path_exists env) (unpickle_encoders env) (encoder_paths config)")
        case (Inl e)
        with Inr r1 r2 assms show ?thesis
          by (cases r2) (auto simp: load_model_try_def s1_def Let_def)
      next
        case r3: (Inr r3)
        with Inr r1 r2 assms show ?thesis
          by (cases r2; cases r3) (auto simp: load_model_try_def s1_def Let_def split: if_splits)
      qed
    qed
    with m1 show ?thesis by simp
  qed
qed

lemma load_model_origin:
  assumes "load_model env s = (r, s', l)" and "model s' = Some m"
  shows "model s = Some m \<or> (\<exists>path. unpickle_model env path = Inr m)"
proof (cases "model s")
  case (Some m0)
  with assms show ?thesis by (simp add: load_model_def)
next
  case None
  obtain r0 s0 l0 where t: "load_model_try env s = (r0, s0, l0)"
    by (cases "load_model_try env s")
  with None assms(1) have "s' = s0" by (cases r0) (simp_all add: load_model_def)
  with load_model_try_model [OF t] assms(2) None show ?thesis by auto
qed


text \<open>The example, step by step.\<close>

lemma example_load:
  "load_model (example_env 0.5) initial_service
     = (Inr True, example_service 0.5,
        [(INFO, ''Loaded model from ml_models/stroke_model.pkl''),
         (INFO, ''Loaded scaler from ml_models/scaler.pkl''),
         (INFO, ''Loaded encoders from ml_models/label_encoders.pkl''),
         (INFO, ''ML model loaded successfully'')])"
  by (simp add: load_model_def load_model_try_def example_defs and_then_def
        model_paths_def scaler_paths_def encoder_paths_def config_get_def
        model_is_true_def scaler_is_true_def encoders_is_true_def)

lemma example_encode:
  "encode_cols example_builtins (label_encoders (example_service 0.5)) example_patient
       categorical_cols example_patient
     = (Inr [(''gender'', VInt 1), (''age'', VFloat 45), (''hypertension'', VInt 0),
           (''heart_disease'', VInt 0), (''ever_married'', VInt 1), (''work_type'', VInt 1),
           (''Residence_type'', VInt 1), (''avg_glucose_level'', VFloat 120.5),
           (''bmi'', VFloat 25.6), (''smoking_status'', VInt 2)], [])"
  by (simp add: example_defs categorical_cols_def AList.update_def)

lemma example_row:
  "list_all2 (\<lambda>c v. map_of [(''gender'', VInt 1), (''age'', VFloat 45), (''hypertension'', VInt 0),
           (''heart_disease'', VInt 0), (''ever_married'', VInt 1), (''work_type'', VInt 1),
           (''Residence_type'', VInt 1), (''avg_glucose_level'', VFloat 120.5),
           (''bmi'', VFloat 25.6), (''smoking_status'', VInt 2)] c = Some v) feature_order
     [VInt 1, VFloat 45, VInt 0, VInt 0, VInt 1, VInt 1, VInt 1, VFloat 120.5, VFloat 25.6, VInt 2]"
  by (simp add: feature_order_def)

lemma example_scale:
  "transform example_scaler
     [VInt 1, VFloat 45, VInt 0, VInt 0, VInt 1, VInt 1, VInt 1, VFloat 120.5, VFloat 25.6, VInt 2]
   = Inr [1, 45, 0, 0, 1, 1, 1, 120.5, 25.6, 2]"
  by (simp add: example_scaler_def and_then_def)

lemma example_percentage: "py_round example_builtins (float_mul example_builtins 0.5 100) 2 = 50"
  by (simp add: example_builtins_def exact_round_def round_half_even_def)

subsection \<open>The result dictionary\<close>

text \<open>
  C9. What \<^verbatim>\<open>predict_risk\<close> returns is one of two dictionaries. Either it has exactly
  the keys \<^verbatim>\<open>success\<close> (True), \<^verbatim>\<open>risk_probability\<close>, \<^verbatim>\<open>risk_category\<close> and
  \<^verbatim>\<open>risk_color\<close>, where \<^verbatim>\<open>risk_probability\<close> is \<^verbatim>\<open>round(p * 100, 2)\<close> for the very
  probability \<open>p\<close> that the loaded classifier answered on the scaled row of the encoded
  features, and category and colour are the strings of the bucket of \<open>p\<close>; or it has
  exactly the keys \<^verbatim>\<open>success\<close> (False) and \<^verbatim>\<open>error\<close> (a string). The first is what is
  returned whenever loading, encoding, scaling and classification all return.
\<close>

theorem predict_risk_response_schema:
  "(\<exists>r s' l. predict_risk py env s patient_data = (Inr r, s', l) \<and>
      ((\<exists>encoded_data l1 row sc X m p.
           encode_cols py (label_encoders s') patient_data categorical_cols patient_data
             = (Inr encoded_data, l1) \<and>
           list_all2 (\<lambda>c v. map_of encoded_data c = Some v) feature_order row \<and>
           scaler s' = Some sc \<and> transform sc row = Inr X \<and>
           model s' = Some m \<and> predict_proba m X = Inr p \<and>
           r = [(''success'', VBool True),
                (''risk_probability'', VFloat (py_round py (float_mul py p 100) 2)),
                (''risk_category'', VStr (fst (categorize_risk p))),
                (''risk_color'', VStr (snd (categorize_risk p)))])
       \<or> (\<exists>msg. r = [(''success'', VBool False), (''error'', VStr msg)]))) \<and>
   (\<forall>s' l0 encoded_data l1 row sc X m p.
       load_model env s = (Inr True, s', l0) \<and>
       encode_cols py (label_encoders s') patient_data categorical_cols patient_data
         = (Inr encoded_data, l1) \<and>
       list_all2 (\<lambda>c v. map_of encoded_data c = Some v) feature_order row \<and>
       scaler s' = Some sc \<and> transform sc row = Inr X \<and>
       model s' = Some m \<and> predict_proba m X = Inr p
       \<longrightarrow> predict_risk py env s patient_data =
             (Inr [(''success'', VBool True),
                   (''risk_probability'', VFloat (py_round py (float_mul py p 100) 2)),
                   (''risk_category'', VStr (fst (categorize_risk p))),
                   (''risk_color'', VStr (snd (categorize_risk p)))],
              s', l0 @ l1))"
proof (intro conjI allI impI)
  have form: "\<And>p. success py p = [(''success'', VBool True),
                (''risk_probability'', VFloat (py_round py (float_mul py p 100) 2)),
                (''risk_category'', VStr (fst (categorize_risk p))),
                (''risk_color'', VStr (snd (categorize_risk p)))]"
    by (simp add: success_def split: prod.splits)
  {
    show "\<exists>r s' l. predict_risk py env s patient_data = (Inr r, s', l) \<and>
      ((\<exists>encoded_data l1 row sc X m p.
           encode_cols py (label_encoders s') patient_data categorical_cols patient_data
             = (Inr encoded_data, l1) \<and>
           list_all2 (\<lambda>c v. map_of encoded_data c = Some v) feature_order row \<and>
           scaler s' = Some sc \<and> transform sc row = Inr X \<and>
           model s' = Some m \<and> predict_proba m X = Inr p \<and>
           r = [(''success'', VBool True),
                (''risk_probability'', VFloat (py_round py (float_mul py p 100) 2)),
                (''risk_category'', VStr (fst (categorize_risk p))),
                (''risk_color'', VStr (snd (categorize_risk p)))])
       \<or> (\<exists>msg. r = [(''success'', VBool False), (''error'', VStr msg)]))"
    proof (cases rule: predict_risk_cases [of env s py patient_data])
      case (not_loaded s' l)
      then show ?thesis unfolding failure_def by blast
    next
      case (raised s' l0 m e l)
      then show ?thesis unfolding failure_def by blast
    next
      case (returned s' l0 m result l)
      from predict_try_Inr [OF returned(3)] form returned(4) show ?thesis by metis
    qed
  }
  fix s' l0 encoded_data l1 row sc X m p
  assume a: "load_model env s = (Inr True, s', l0) \<and>
       encode_cols py (label_encoders s') patient_data categorical_cols patient_data
         = (Inr encoded_data, l1) \<and>
       list_all2 (\<lambda>c v. map_of encoded_data c = Some v) feature_order row \<and>
       scaler s' = Some sc \<and> transform sc row = Inr X \<and>
       model s' = Some m \<and> predict_proba m X = Inr p"
  then have "predict_try py s' patient_data = (Inr (success py p), l1)"
    using predict_try_chain [of py s' patient_data encoded_data l1 row sc X m p] by blast
  with a show "predict_risk py env s patient_data =
             (Inr [(''success'', VBool True),
                   (''risk_probability'', VFloat (py_round py (float_mul py p 100) 2)),
                   (''risk_category'', VStr (fst (categorize_risk p))),
                   (''risk_color'', VStr (snd (categorize_risk p)))],
              s', l0 @ l1)"
    by (simp add: predict_risk_def form)
qed


theorem predict_risk_response_schema_witness:
  "load_model (example_env 0.5) initial_service
     = (Inr True, example_service 0.5,
        [(INFO, ''Loaded model from ml_models/stroke_model.pkl''),
         (INFO, ''Loaded scaler from ml_models/scaler.pkl''),
         (INFO, ''Loaded encoders from ml_models/label_encoders.pkl''),
         (INFO, ''ML model loaded successfully'')]) \<and>
   scaler (example_service 0.5) = Some example_scaler \<and>
   model (example_service 0.5) = Some (example_model 0.5) \<and>
   predict_proba (example_model 0.5) [1, 45, 0, 0, 1, 1, 1, 120.5, 25.6, 2] = Inr 0.5 \<and>
   predict_risk example_builtins (example_env 0.5) initial_service example_patient
     = (Inr [(''success'', VBool True), (''risk_probability'', VFloat 50),
             (''risk_category'', VStr ''Medium Risk''), (''risk_color'', VStr ''orange'')],
        example_service 0.5,
        [(INFO, ''Loaded model from ml_models/stroke_model.pkl''),
         (INFO, ''Loaded scaler from ml_models/scaler.pkl''),
         (INFO, ''Loaded encoders from ml_models/label_encoders.pkl''),
         (INFO, ''ML model loaded successfully'')])"
proof -
  have sc: "scaler (example_service 0.5) = Some example_scaler"
    and m: "model (example_service 0.5) = Some (example_model 0.5)"
    by (simp_all add: example_service_def)
  have p: "predict_proba (example_model 0.5) [1, 45, 0, 0, 1, 1, 1, 120.5, 25.6, 2] = Inr 0.5"
    by (simp add: example_model_def)
  have c: "categorize_risk 0.5 = (''Medium Risk'', ''orange'')"
    by (simp add: categorize_risk_def)
  from predict_risk_response_schema [of example_builtins "example_env 0.5" initial_service
      example_patient]
  have "predict_risk example_builtins (example_env 0.5) initial_service example_patient =
      (Inr [(''success'', VBool True),
            (''risk_probability'',
               VFloat (py_round example_builtins (float_mul example_builtins 0.5 100) 2)),
            (''risk_category'', VStr (fst (categorize_risk 0.5))),
            (''risk_color'', VStr (snd (categorize_risk 0.5)))],
       example_service 0.5,
       [(INFO, ''Loaded model from ml_models/stroke_model.pkl''),
         (INFO, ''Loaded scaler from ml_models/scaler.pkl''),
         (INFO, ''Loaded encoders from ml_models/label_encoders.pkl''),
         (INFO, ''ML model loaded successfully'')] @ [])"
    using example_load example_encode example_row example_scale sc m p by blast
  then have "predict_risk example_builtins (example_env 0.5) initial_service example_patient
     = (Inr [(''success'', VBool True), (''risk_probability'', VFloat 50),
             (''risk_category'', VStr ''Medium Risk''), (''risk_color'', VStr ''orange'')],
        example_service 0.5,
        [(INFO, ''Loaded model from ml_models/stroke_model.pkl''),
         (INFO, ''Loaded scaler from ml_models/scaler.pkl''),
         (INFO, ''Loaded encoders from ml_models/label_encoders.pkl''),
         (INFO, ''ML model loaded successfully'')])"
    by (simp only: example_percentage c fst_conv snd_conv append_Nil2)
  with example_load sc m p show ?thesis by (intro conjI)
qed


lemma categorize_risk_labels:
  "fst (categorize_risk p) \<in> {''Low Risk'', ''Medium Risk'', ''High Risk''}"
  by (simp add: categorize_risk_def)

text \<open>
  C5. With a classifier that meets the contract of the specification (a class-1
  probability in [0, 1]), whether cached in the service or loaded from a file by this
  call: for every input dictionary, \<^verbatim>\<open>predict_risk\<close> either reports a failure, which
  carries no probability, or builds its result from the probability \<open>p\<close> that this
  classifier answered on the scaled feature row, unaltered, so that \<open>p\<close> lies within
  [0, 1] and the category is one of Low Risk, Medium Risk and High Risk; and it does
  build that result whenever loading, encoding, scaling and classification return.
\<close>

theorem classifier_probability_in_unit_interval:
  assumes "\<And>m. model s = Some m \<Longrightarrow> probability_classifier m"
    and "\<And>path m. unpickle_model env path = Inr m \<Longrightarrow> probability_classifier m"
  shows "(\<exists>r s' l. predict_risk py env s patient_data = (Inr r, s', l) \<and>
            ((\<exists>msg. r = failure msg) \<or>
             (\<exists>encoded_data l1 row sc X m p.
                encode_cols py (label_encoders s') patient_data categorical_cols patient_data
                  = (Inr encoded_data, l1) \<and>
                list_all2 (\<lambda>c v. map_of encoded_data c = Some v) feature_order row \<and>
                scaler s' = Some sc \<and> transform sc row = Inr X \<and>
                model s' = Some m \<and> predict_proba m X = Inr p \<and>
                0 \<le> p \<and> p \<le> 1 \<and> r = success py p \<and>
                map_of r ''risk_category'' = Some (VStr (fst (categorize_risk p))) \<and>
                fst (categorize_risk p) \<in> {''Low Risk'', ''Medium Risk'', ''High Risk''}))) \<and>
         (\<forall>s' l0 encoded_data l1 row sc X m p.
            load_model env s = (Inr True, s', l0) \<and>
            encode_cols py (label_encoders s') patient_data categorical_cols patient_data
              = (Inr encoded_data, l1) \<and>
            list_all2 (\<lambda>c v. map_of encoded_data c = Some v) feature_order row \<and>
            scaler s' = Some sc \<and> transform sc row = Inr X \<and>
            model s' = Some m \<and> predict_proba m X = Inr p
            \<longrightarrow> fst (predict_risk py env s patient_data) = Inr (success py p)
                \<and> 0 \<le> p \<and> p \<le> 1)"
proof -
  have contract: "0 \<le> p \<and> p \<le> 1"
    if "load_model env s = (b, s', l0)" "model s' = Some m" "predict_proba m X = Inr p"
    for b s' l0 m X p
  proof -
    from load_model_origin [OF that(1,2)] assms have "probability_classifier m" by blast
    with that(3) show ?thesis by (simp add: probability_classifier_def)
  qed
  have cat: "\<And>p. map_of (success py p) ''risk_category'' = Some (VStr (fst (categorize_risk p)))"
    by (simp add: success_def case_prod_beta)
  have first: "\<exists>r s' l. predict_risk py env s patient_data = (Inr r, s', l) \<and>
            ((\<exists>msg. r = failure msg) \<or>
             (\<exists>encoded_data l1 row sc X m p.
                encode_cols py (label_encoders s') patient_data categorical_cols patient_data
                  = (Inr encoded_data, l1) \<and>
                list_all2 (\<lambda>c v. map_of encoded_data c = Some v) feature_order row \<and>
                scaler s' = Some sc \<and> transform sc row = Inr X \<and>
                model s' = Some m \<and> predict_proba m X = Inr p \<and>
                0 \<le> p \<and> p \<le> 1 \<and> r = success py p \<and>
                map_of r ''risk_category'' = Some (VStr (fst (categorize_risk p))) \<and>
                fst (categorize_risk p) \<in> {''Low Risk'', ''Medium Risk'', ''High Risk''}))"
  proof (cases rule: predict_risk_cases [of env s py patient_data])
    case (not_loaded s' l)
    then show ?thesis by blast
  next
    case (raised s' l0 m e l)
    then show ?thesis by blast
  next
    case (returned s' l0 m0 result l)
    from predict_try_Inr [OF returned(3)] obtain encoded_data row sc X m p where
      ch: "encode_cols py (label_encoders s') patient_data categorical_cols patient_data
             = (Inr encoded_data, l)"
        "list_all2 (\<lambda>c v. map_of encoded_data c = Some v) feature_order row"
        "scaler s' = Some sc" "transform sc row = Inr X"
        "model s' = Some m" "predict_proba m X = Inr p" "result = success py p"
      by blast
    from contract [OF returned(1) ch(5,6)] have "0 \<le> p" "p \<le> 1" by simp_all
    with ch cat [of p] categorize_risk_labels [of p] returned(4) show ?thesis by blast
  qed
  have second: "fst (predict_risk py env s patient_data) = Inr (success py p) \<and> 0 \<le> p \<and> p \<le> 1"
    if a: "load_model env s = (Inr True, s', l0) \<and>
            encode_cols py (label_encoders s') patient_data categorical_cols patient_data
              = (Inr encoded_data, l1) \<and>
            list_all2 (\<lambda>c v. map_of encoded_data c = Some v) feature_order row \<and>
            scaler s' = Some sc \<and> transform sc row = Inr X \<and>
            model s' = Some m \<and> predict_proba m X = Inr p"
    for s' l0 encoded_data l1 row sc X m p
  proof -
    from a have "predict_try py s' patient_data = (Inr (success py p), l1)"
      using predict_try_chain [of py s' patient_data encoded_data l1 row sc X m p] by blast
    with a have "fst (predict_risk py env s patient_data) = Inr (success py p)"
      by (simp add: predict_risk_def)
    moreover from a contract [of "Inr True" s' l0 m X p] have "0 \<le> p \<and> p \<le> 1" by blast
    ultimately show ?thesis by simp
  qed
  from first second show ?thesis by blast
qed

theorem classifier_probability_in_unit_interval_witness:
  "probability_classifier (example_model 0.5) \<and>
   model (example_service 0.5) = Some (example_model 0.5) \<and>
   unpickle_model (example_env 0.5) ''ml_models/stroke_model.pkl'' = Inr (example_model 0.5) \<and>
   load_model (example_env 0.5) (example_service 0.5) = (Inr True, example_service 0.5, []) \<and>
   predict_proba (example_model 0.5) [1, 45, 0, 0, 1, 1, 1, 120.5, 25.6, 2] = Inr 0.5 \<and>
   fst (predict_risk example_builtins (example_env 0.5) (example_service 0.5) example_patient)
     = Inr (success example_builtins 0.5) \<and>
   (0::real) \<le> 0.5 \<and> (0.5::real) \<le> 1"
proof -
  have pc: "probability_classifier (example_model 0.5)"
    by (simp add: probability_classifier_def example_model_def)
  have sc: "scaler (example_service 0.5) = Some example_scaler"
    and m: "model (example_service 0.5) = Some (example_model 0.5)"
    by (simp_all add: example_service_def)
  have u: "unpickle_model (example_env 0.5) ''ml_models/stroke_model.pkl'' = Inr (example_model 0.5)"
    by (simp add: example_env_def)
  have h1: "\<And>m. model (example_service 0.5) = Some m \<Longrightarrow> probability_classifier m"
    using m pc by simp
  have h2: "\<And>path m. unpickle_model (example_env 0.5) path = Inr m \<Longrightarrow> probability_classifier m"
    using pc by (simp add: example_env_def)
  have ld: "load_model (example_env 0.5) (example_service 0.5) = (Inr True, example_service 0.5, [])"
    using m by (rule load_model_cached)
  have p: "predict_proba (example_model 0.5) [1, 45, 0, 0, 1, 1, 1, 120.5, 25.6, 2] = Inr 0.5"
    by (simp add: example_model_def)
  have t: "\<forall>s' l0 encoded_data l1 row sc X m p.
            load_model (example_env 0.5) (example_service 0.5) = (Inr True, s', l0) \<and>
            encode_cols example_builtins (label_encoders s') example_patient categorical_cols
                example_patient
              = (Inr encoded_data, l1) \<and>
            list_all2 (\<lambda>c v. map_of encoded_data c = Some v) feature_order row \<and>
            scaler s' = Some sc \<and> transform sc row = Inr X \<and>
            model s' = Some m \<and> predict_proba m X = Inr p
            \<longrightarrow> fst (predict_risk example_builtins (example_env 0.5) (example_service 0.5)
                      example_patient) = Inr (success example_builtins p)
                \<and> 0 \<le> p \<and> p \<le> 1"
    by (rule classifier_probability_in_unit_interval [THEN conjunct2]; rule h1 h2; assumption)
  have "fst (predict_risk example_builtins (example_env 0.5) (example_service 0.5) example_patient)
          = Inr (success example_builtins 0.5) \<and> (0::real) \<le> 0.5 \<and> (0.5::real) \<le> 1"
    using t ld example_encode example_row example_scale sc m p by blast
  with pc m u ld p show ?thesis by (intro conjI) simp_all
qed


subsection \<open>Feature order\<close>




end
